theory Spec2Isabelle
  imports Main "HOL-Library.Word"
begin

unbundle bit_operations_syntax

section \<open>Bytes and integers\<close>

text \<open>
  A Go \<^verbatim>\<open>[]byte\<close> is a list of 8-bit words, \<^verbatim>\<open>uint32\<close> is a 32-bit word, Go's
  \<^verbatim>\<open>int\<close> (used for indices and lengths) is an unbounded integer here: no index in the
  modelled code comes near 2^63.  Slices are modelled by value.
\<close>

type_synonym byte = "8 word"
type_synonym bytes = "byte list"
type_synonym u32 = "32 word"

section \<open>Transactions (package tx)\<close>

text \<open>
  \<^verbatim>\<open>TxInput.TxID\<close> is the one byte slice that the code compares with \<^verbatim>\<open>nil\<close>
  (in \<^verbatim>\<open>IsCoinbase\<close>), so it is an option: \<open>None\<close> is the nil slice.  \<^verbatim>\<open>Value\<close> is an
  int64 amount; no modelled function does arithmetic on it.
\<close>

record TxInput =
  TxID :: "bytes option"
  OutIndex :: int
  Signature :: bytes
  PubKey :: bytes

record TxOutput =
  Value :: int
  PubKeyHash :: bytes

record Transaction =
  ID :: bytes
  Inputs :: "TxInput list"
  Outputs :: "TxOutput list"

text \<open>\<^verbatim>\<open>string(txID)\<close>: the map key of a slice; nil and the empty slice give the same key.\<close>

definition key_of :: "bytes option \<Rightarrow> bytes" where
  "key_of b = (case b of None \<Rightarrow> [] | Some k \<Rightarrow> k)"

text \<open>
  \<^verbatim>\<open>len(tx.Inputs) == 1 && tx.Inputs[0].TxID == nil && tx.Inputs[0].OutIndex == -1\<close>
\<close>

definition IsCoinbase :: "Transaction \<Rightarrow> bool" where
  "IsCoinbase tx =
     (case Inputs tx of
        [i] \<Rightarrow> TxID i = None \<and> OutIndex i = -1
      | _ \<Rightarrow> False)"

section \<open>The UTXO set (package utxo)\<close>

text \<open>
  \<^verbatim>\<open>UTXOs map[string][]tx.TxOutput\<close>: one entry per transaction id, holding the list of
  that transaction's outputs that are still unspent.
\<close>

type_synonym UTXOSet = "bytes \<rightharpoonup> TxOutput list"

datatype utxo_error = UTXONotFound | InvalidOutputIndex | TransactionNotFound

definition NewUTXOSet :: UTXOSet where
  "NewUTXOSet = Map.empty"

definition AddUTXO :: "UTXOSet \<Rightarrow> bytes \<Rightarrow> TxOutput list \<Rightarrow> UTXOSet" where
  "AddUTXO u txID outputs = u(txID \<mapsto> outputs)"

text \<open>
  \<^verbatim>\<open>outputs = append(outputs[:index], outputs[index+1:]...)\<close> deletes the element at
  position \<open>index\<close> and moves every later element one position down.  On an error
  the map is not touched.  (In Go the shift is done inside the array that the stored
  slice shares with the \<^verbatim>\<open>Outputs\<close> of the transaction it came from; the map itself
  holds one slice per key, so as a map from keys to lists it is what is written here.)
\<close>

definition RemoveUTXO :: "UTXOSet \<Rightarrow> bytes \<Rightarrow> int \<Rightarrow> utxo_error + UTXOSet" where
  "RemoveUTXO u txID index =
     (case u txID of
        None \<Rightarrow> Inl UTXONotFound
      | Some outputs \<Rightarrow>
          if index < 0 \<or> index \<ge> int (length outputs) then Inl InvalidOutputIndex
          else
            let outputs' = take (nat index) outputs @ drop (nat index + 1) outputs
            in if length outputs' = 0 then Inr (u(txID := None))
               else Inr (u(txID \<mapsto> outputs')))"

definition FindUTXO :: "UTXOSet \<Rightarrow> bytes \<Rightarrow> int \<Rightarrow> utxo_error + TxOutput" where
  "FindUTXO u txID index =
     (case u txID of
        None \<Rightarrow> Inl TransactionNotFound
      | Some outputs \<Rightarrow>
          if index < 0 \<or> index \<ge> int (length outputs) then Inl InvalidOutputIndex
          else Inr (outputs ! nat index))"

text \<open>
  The loop of \<^verbatim>\<open>Update\<close> over the inputs.  \<^verbatim>\<open>RemoveUTXO\<close> mutates the set in place, so
  when a later input fails the removals already done stay: the loop returns the set
  it has reached together with the error.
\<close>

fun remove_inputs :: "UTXOSet \<Rightarrow> TxInput list \<Rightarrow> UTXOSet \<times> utxo_error option" where
  "remove_inputs u [] = (u, None)"
| "remove_inputs u (i # ins) =
     (case RemoveUTXO u (key_of (TxID i)) (OutIndex i) of
        Inl e \<Rightarrow> (u, Some e)
      | Inr u' \<Rightarrow> remove_inputs u' ins)"

text \<open>
  \<^verbatim>\<open>Update\<close> returns the set after the call and the error, if any (the Go method
  mutates its receiver and returns only the error).
\<close>

definition Update :: "UTXOSet \<Rightarrow> Transaction \<Rightarrow> UTXOSet \<times> utxo_error option" where
  "Update u tx =
     (if \<not> IsCoinbase tx then
        (case remove_inputs u (Inputs tx) of
           (u', Some e) \<Rightarrow> (u', Some e)
         | (u', None) \<Rightarrow> (AddUTXO u' (ID tx) (Outputs tx), None))
      else (AddUTXO u (ID tx) (Outputs tx), None))"

text \<open>
  The loop of \<^verbatim>\<open>AddBlock\<close> that applies the transactions of the new block, coinbase
  first: \<^verbatim>\<open>for _, transaction := range allTxs { if err := bc.UTXOSet.Update(transaction); err != nil { return ... } }\<close>.
\<close>

fun update_all :: "UTXOSet \<Rightarrow> Transaction list \<Rightarrow> UTXOSet \<times> utxo_error option" where
  "update_all u [] = (u, None)"
| "update_all u (tx # txs) =
     (case Update u tx of
        (u', Some e) \<Rightarrow> (u', Some e)
      | (u', None) \<Rightarrow> update_all u' txs)"

section \<open>Hashing and the block header (packages crypto and types)\<close>

text \<open>
  \<^verbatim>\<open>sha256.Sum256\<close> of the Go standard library is a parameter \<open>sha\<close> of every function
  that hashes: the properties proved hold for whatever function is put there.  An
  executable SHA-256, defined further down, is put there to run the model on concrete
  inputs.
\<close>

type_synonym hashfn = "bytes \<Rightarrow> bytes"

definition HashBytes :: "hashfn \<Rightarrow> bytes \<Rightarrow> bytes" where
  "HashBytes sha data = sha data"

definition DoubleHashBytes :: "hashfn \<Rightarrow> bytes \<Rightarrow> bytes" where
  "DoubleHashBytes sha data = sha (sha data)"

text \<open>
  A \<^verbatim>\<open>time.Time\<close> is the instant it denotes, in nanoseconds since the Unix epoch;
  \<^verbatim>\<open>Unix()\<close> is the number of whole seconds (rounded down).
\<close>

type_synonym Time = int

definition Unix :: "Time \<Rightarrow> int" where
  "Unix t = t div 1000000000"

definition Hour :: int where
  "Hour = 3600 * 1000000000"

record BlockHeader =
  Version :: u32
  PrevBlockHash :: bytes
  MerkleRoot :: bytes
  Timestamp :: Time
  DifficultyTarget :: u32
  Nonce :: u32

text \<open>
  \<^verbatim>\<open>binary.Write(&buf, binary.LittleEndian, v)\<close> for a uint32 and for an int64: byte
  \<open>i\<close> of the output is \<^verbatim>\<open>byte(v >> (8*i))\<close>.  The int64 is written as its two's
  complement bit pattern.
\<close>

definition write_uint32 :: "u32 \<Rightarrow> bytes" where
  "write_uint32 v = [ucast v, ucast (drop_bit 8 v), ucast (drop_bit 16 v), ucast (drop_bit 24 v)]"

definition write_int64 :: "int \<Rightarrow> bytes" where
  "write_int64 i =
     (let v = (word_of_int i :: 64 word)
      in [ucast v, ucast (drop_bit 8 v), ucast (drop_bit 16 v), ucast (drop_bit 24 v),
          ucast (drop_bit 32 v), ucast (drop_bit 40 v), ucast (drop_bit 48 v),
          ucast (drop_bit 56 v)])"

definition Serialize :: "BlockHeader \<Rightarrow> bytes" where
  "Serialize h =
     write_uint32 (Version h) @ PrevBlockHash h @ MerkleRoot h @
     write_int64 (Unix (Timestamp h)) @ write_uint32 (DifficultyTarget h) @
     write_uint32 (Nonce h)"

definition HashBlockHeader :: "hashfn \<Rightarrow> BlockHeader \<Rightarrow> bytes" where
  "HashBlockHeader sha header = DoubleHashBytes sha (Serialize header)"

text \<open>
  \<^verbatim>\<open>Block.Transactions\<close> has type \<^verbatim>\<open>interface{}\<close>; the code casts it to
  \<^verbatim>\<open>[]*tx.Transaction\<close> and treats any other dynamic type as an error.
\<close>

datatype TransactionsValue = TxSlice "Transaction list" | OtherValue

record Block =
  Header :: BlockHeader
  Transactions :: TransactionsValue
  Hash :: bytes

section \<open>Merkle root (package merkle)\<close>

text \<open>
  The inner loop of \<^verbatim>\<open>BuildMerkleRoot\<close>:
  \<^verbatim>\<open>for i := 0; i < len(tree); i += 2 { newLevel = append(newLevel, DoubleHashBytes(append(tree[i], tree[i+1]...))) }\<close>.
  It is only entered with a \<open>tree\<close> of even length, so \<open>tree[i+1]\<close> is in range.
  The hashes are values here: the ids of different transactions do not share memory,
  so \<^verbatim>\<open>append\<close> writing into the spare capacity of \<open>tree[i]\<close> changes no other id.
\<close>

function level_loop :: "hashfn \<Rightarrow> bytes list \<Rightarrow> nat \<Rightarrow> bytes list \<Rightarrow> bytes list" where
  "level_loop sha tree i newLevel =
     (if i < length tree
      then level_loop sha tree (i + 2)
             (newLevel @ [DoubleHashBytes sha (tree ! i @ tree ! (i + 1))])
      else newLevel)"
  by pat_completeness auto
termination
  by (relation "measure (\<lambda>(sha, tree, i, newLevel). length tree - i)") auto

declare level_loop.simps [simp del]

definition pad_level :: "bytes list \<Rightarrow> bytes list" where
  "pad_level tree = (if length tree mod 2 \<noteq> 0 then tree @ [tree ! (length tree - 1)] else tree)"

function merkle_loop :: "hashfn \<Rightarrow> bytes list \<Rightarrow> bytes list" where
  "merkle_loop sha tree =
     (if length tree > 1 then merkle_loop sha (level_loop sha (pad_level tree) 0 [])
      else tree)"
  by pat_completeness auto
termination
proof (relation "measure (\<lambda>(sha, tree). length tree)")
  show "wf (measure (\<lambda>(sha :: hashfn, tree :: bytes list). length tree))"
    by simp
next
  fix sha :: hashfn and tree :: "bytes list"
  assume big: "1 < length tree"
  have len: "length (level_loop sha t i acc) = length acc + (length t - i + 1) div 2"
    for t i acc
  proof (induction sha t i acc rule: level_loop.induct)
    case (1 sha t i acc)
    show ?case
    proof (cases "i < length t")
      case True
      have "length (level_loop sha t i acc) =
          length (level_loop sha t (i + 2) (acc @ [DoubleHashBytes sha (t ! i @ t ! (i + 1))]))"
        using True by (subst level_loop.simps) simp
      also have "\<dots> = length acc + 1 + (length t - (i + 2) + 1) div 2"
        using 1 [OF True] by simp
      also have "\<dots> = length acc + (length t - i + 1) div 2"
        using True by arith
      finally show ?thesis .
    next
      case False
      then show ?thesis by (subst level_loop.simps) simp
    qed
  qed
  have "length (pad_level tree) \<le> length tree + 1"
    by (simp add: pad_level_def)
  with big have "length (level_loop sha (pad_level tree) 0 []) < length tree"
    unfolding len by (auto simp: pad_level_def; arith)
  then show "((sha, level_loop sha (pad_level tree) 0 []), (sha, tree))
      \<in> measure (\<lambda>(sha, tree). length tree)"
    by simp
qed

declare merkle_loop.simps [simp del]

definition BuildMerkleRoot :: "hashfn \<Rightarrow> bytes list \<Rightarrow> bytes" where
  "BuildMerkleRoot sha txHashes =
     (if length txHashes = 0 then replicate 32 0
      else merkle_loop sha txHashes ! 0)"

text \<open>
  The merkle root as the specification words it: pair adjacent elements, the last one
  with itself when it has no partner, hash each pair, and repeat until one element is
  left.
\<close>

fun spec_pair_up :: "hashfn \<Rightarrow> bytes list \<Rightarrow> bytes list" where
  "spec_pair_up sha (l # r # rest) = sha (sha (l @ r)) # spec_pair_up sha rest"
| "spec_pair_up sha [l] = [sha (sha (l @ l))]"
| "spec_pair_up sha [] = []"

function spec_merkle_root :: "hashfn \<Rightarrow> bytes list \<Rightarrow> bytes" where
  "spec_merkle_root sha [] = replicate 32 0"
| "spec_merkle_root sha [h] = h"
| "spec_merkle_root sha (h # h' # hs) = spec_merkle_root sha (spec_pair_up sha (h # h' # hs))"
  by pat_completeness auto
termination
proof (relation "measure (\<lambda>(sha, hs). length hs)")
  show "wf (measure (\<lambda>(sha :: hashfn, hs :: bytes list). length hs))"
    by simp
next
  fix sha :: hashfn and h h' :: bytes and hs :: "bytes list"
  have "length (spec_pair_up sha xs) \<le> (length xs + 1) div 2" for xs
    by (induction sha xs rule: spec_pair_up.induct) auto
  from this [of "hs"] show "((sha, spec_pair_up sha (h # h' # hs)), (sha, h # h' # hs))
      \<in> measure (\<lambda>(sha, hs). length hs)"
    by simp
qed

section \<open>Proof of work (package pow)\<close>

definition MaxNonce :: u32 where
  "MaxNonce = 0xFFFFFFFF"

record ProofOfWork =
  Block :: Block
  Target :: nat

text \<open>
  \<^verbatim>\<open>target.Lsh(target, uint(256-targetBits))\<close> on \<open>target = 1\<close>; the subtraction is done
  on uint32 and wraps.
\<close>

definition NewProofOfWork :: "Block \<Rightarrow> ProofOfWork" where
  "NewProofOfWork block =
     \<lparr>Block = block,
      Target = push_bit (unat (256 - DifficultyTarget (Header block))) 1\<rparr>"

text \<open>\<^verbatim>\<open>big.Int.SetBytes\<close>: the bytes read as a big-endian unsigned integer.\<close>

definition SetBytes :: "bytes \<Rightarrow> nat" where
  "SetBytes buf = foldl (\<lambda>acc b. acc * 256 + unat b) 0 buf"

text \<open>\<^verbatim>\<open>hashInt.Cmp(pow.Target) == -1\<close>\<close>

definition Validate :: "hashfn \<Rightarrow> ProofOfWork \<Rightarrow> bool" where
  "Validate sha pow = (SetBytes (HashBlockHeader sha (Header (Block pow))) < Target pow)"

definition IsValidHash :: "bytes \<Rightarrow> u32 \<Rightarrow> bool" where
  "IsValidHash hash difficultyTarget =
     (SetBytes hash < push_bit (unat (256 - difficultyTarget)) 1)"

text \<open>
  The loop of \<^verbatim>\<open>Mine\<close>, from the current \<open>nonce\<close> and the last \<open>hash\<close> computed.  It
  writes the nonce into the header of the block, so the header is part of the result.
\<close>

function mine_loop ::
  "hashfn \<Rightarrow> nat \<Rightarrow> BlockHeader \<Rightarrow> u32 \<Rightarrow> bytes \<Rightarrow> (u32 \<times> bytes) \<times> BlockHeader" where
  "mine_loop sha target hdr nonce hash =
     (if nonce < MaxNonce then
        (if SetBytes (HashBlockHeader sha (hdr\<lparr>Nonce := nonce\<rparr>)) < target
         then ((nonce, HashBlockHeader sha (hdr\<lparr>Nonce := nonce\<rparr>)), hdr\<lparr>Nonce := nonce\<rparr>)
         else mine_loop sha target (hdr\<lparr>Nonce := nonce\<rparr>) (nonce + 1)
                (HashBlockHeader sha (hdr\<lparr>Nonce := nonce\<rparr>)))
      else ((nonce, hash), hdr))"
  by pat_completeness auto
termination
proof (relation "measure (\<lambda>(sha, target, hdr, nonce, hash). unat MaxNonce - unat nonce)")
  show "wf (measure (\<lambda>(sha :: hashfn, target :: nat, hdr :: BlockHeader, nonce :: u32,
      hash :: bytes). unat MaxNonce - unat nonce))"
    by simp
next
  fix sha :: hashfn and target :: nat and hdr :: BlockHeader and nonce :: u32 and hash :: bytes
  assume "nonce < MaxNonce"
  then have "unat nonce < unat MaxNonce"
    by (simp add: word_less_nat_alt)
  moreover from this have "unat (nonce + 1) = unat nonce + 1"
    by (simp add: unat_word_ariths MaxNonce_def)
  ultimately show "((sha, target, hdr\<lparr>Nonce := nonce\<rparr>, nonce + 1,
        HashBlockHeader sha (hdr\<lparr>Nonce := nonce\<rparr>)), (sha, target, hdr, nonce, hash))
      \<in> measure (\<lambda>(sha, target, hdr, nonce, hash). unat MaxNonce - unat nonce)"
    by simp
qed

declare mine_loop.simps [simp del]

text \<open>
  \<^verbatim>\<open>Mine\<close> returns the pair (nonce, hash); the second component is the proof-of-work
  object with the header as the loop left it.
\<close>

definition Mine :: "hashfn \<Rightarrow> ProofOfWork \<Rightarrow> (u32 \<times> bytes) \<times> ProofOfWork" where
  "Mine sha pow =
     (case mine_loop sha (Target pow) (Header (Block pow)) 0 [] of
        (r, hdr) \<Rightarrow> (r, pow\<lparr>Block := (Block pow)\<lparr>Header := hdr\<rparr>\<rparr>))"

section \<open>The chain engine (package blockchain)\<close>

text \<open>The \<^verbatim>\<open>Storage\<close> handle of the Go struct plays no part in the functions modelled.\<close>

record Blockchain =
  Blocks :: "Block list"
  DifficultyTarget :: u32
  UTXOSet :: UTXOSet
  PendingTxs :: "Transaction list"

datatype chain_error =
    InvalidProofOfWork
  | BlockHashMismatch
  | InvalidTransactionType
  | MerkleRootMismatch
  | PreviousBlockHashMismatch
  | TimestampTooFarInFuture
  | BlockHasNoTransactions
  | FirstTransactionNotCoinbase
  | MultipleCoinbaseTransactions
  | BlockIndexOutOfRange

text \<open>
  \<^verbatim>\<open>ValidateBlock\<close> returns the first error of its seven checks, or \<open>None\<close> for
  \<^verbatim>\<open>nil\<close>.  The wall clock \<^verbatim>\<open>time.Now()\<close> is the parameter \<open>now\<close>.
\<close>

definition ValidateBlock :: "hashfn \<Rightarrow> Time \<Rightarrow> Blockchain \<Rightarrow> Block \<Rightarrow> chain_error option" where
  "ValidateBlock sha now bc block =
     (if \<not> Validate sha (NewProofOfWork block) then Some InvalidProofOfWork
      else if HashBlockHeader sha (Header block) \<noteq> Hash block then Some BlockHashMismatch
      else
        (case Transactions block of
           OtherValue \<Rightarrow> Some InvalidTransactionType
         | TxSlice transactions \<Rightarrow>
             if BuildMerkleRoot sha (map ID transactions) \<noteq> MerkleRoot (Header block)
             then Some MerkleRootMismatch
             else if length (Blocks bc) > 0 \<and>
                     PrevBlockHash (Header block) \<noteq> Hash (Blocks bc ! (length (Blocks bc) - 1))
             then Some PreviousBlockHashMismatch
             else if Timestamp (Header block) > now + 2 * Hour
             then Some TimestampTooFarInFuture
             else if length transactions = 0 then Some BlockHasNoTransactions
             else if \<not> IsCoinbase (transactions ! 0) then Some FirstTransactionNotCoinbase
             else if list_ex IsCoinbase (drop 1 transactions)
             then Some MultipleCoinbaseTransactions
             else None))"

definition GetBlock :: "Blockchain \<Rightarrow> int \<Rightarrow> chain_error + Block" where
  "GetBlock bc index =
     (if index < 0 \<or> index \<ge> int (length (Blocks bc)) then Inl BlockIndexOutOfRange
      else Inr (Blocks bc ! nat index))"

definition Height :: "Blockchain \<Rightarrow> int" where
  "Height bc = int (length (Blocks bc))"

section \<open>The query surface (package grpc)\<close>

text \<open>Of the \<^verbatim>\<open>Server\<close> struct only the chain it serves matters here.\<close>

record Server =
  bc :: Blockchain

datatype server_error = FailedToGetBestBlock chain_error | TypeAssertionPanic

text \<open>\<^verbatim>\<open>fmt.Sprintf("%x", b)\<close>: two lower-case hexadecimal digits per byte.\<close>

definition hex_digit :: "nat \<Rightarrow> char" where
  "hex_digit d = ''0123456789abcdef'' ! d"

definition sprintf_x :: "bytes \<Rightarrow> string" where
  "sprintf_x b = concat (map (\<lambda>x. [hex_digit (unat x div 16), hex_digit (unat x mod 16)]) b)"

definition GetBestBlockHash :: "Server \<Rightarrow> server_error + string" where
  "GetBestBlockHash s =
     (case GetBlock (bc s) (Height (bc s)) of
        Inl err \<Rightarrow> Inl (FailedToGetBestBlock err)
      | Inr block \<Rightarrow> Inr (sprintf_x (Hash block)))"

text \<open>
  \<^verbatim>\<open>getTotalTransactions\<close>: the loop \<^verbatim>\<open>for i := 0; i <= height; i++\<close>, from index \<open>i\<close> with
  \<open>n\<close> iterations left.  The unchecked type assertion
  \<^verbatim>\<open>block.Transactions.([]*tx.Transaction)\<close> panics on any other dynamic type.
\<close>

fun total_loop :: "Blockchain \<Rightarrow> int \<Rightarrow> nat \<Rightarrow> int \<Rightarrow> server_error + int" where
  "total_loop c i 0 count = Inr count"
| "total_loop c i (Suc n) count =
     (case GetBlock c i of
        Inl err \<Rightarrow> total_loop c (i + 1) n count
      | Inr block \<Rightarrow>
          (case Transactions block of
             OtherValue \<Rightarrow> Inl TypeAssertionPanic
           | TxSlice transactions \<Rightarrow> total_loop c (i + 1) n (count + int (length transactions))))"

definition getTotalTransactions :: "Server \<Rightarrow> server_error + int" where
  "getTotalTransactions s = total_loop (bc s) 0 (nat (Height (bc s)) + 1) 0"

text \<open>The fields of \<^verbatim>\<open>pb.BlockchainInfo\<close> that the handler fills.\<close>

record BlockchainInfo =
  InfoHeight :: int
  BestBlockHash :: string
  Difficulty :: int
  TotalTransactions :: int
  PeerCount :: int
  IsSyncing :: bool

text \<open>
  \<^verbatim>\<open>bestBlock, _ := s.bc.GetBlock(height)\<close> discards the error; \<open>bestHash\<close> stays the
  empty string unless a block came back.
\<close>

definition GetBlockchainInfo :: "Server \<Rightarrow> server_error + BlockchainInfo" where
  "GetBlockchainInfo s =
     (let height = Height (bc s);
          bestHash = (case GetBlock (bc s) height of
                        Inl err \<Rightarrow> []
                      | Inr bestBlock \<Rightarrow> sprintf_x (Hash bestBlock))
      in case getTotalTransactions s of
           Inl p \<Rightarrow> Inl p
         | Inr count \<Rightarrow>
             Inr \<lparr>InfoHeight = height,
                  BestBlockHash = bestHash,
                  Difficulty = uint (DifficultyTarget (bc s)),
                  TotalTransactions = count,
                  PeerCount = 0,
                  IsSyncing = False\<rparr>)"

section \<open>Keys and addresses (package crypto)\<close>

definition AddressVersion :: byte where
  "AddressVersion = 0x00"

definition ChecksumLength :: nat where
  "ChecksumLength = 4"

text \<open>\<^verbatim>\<open>secondHash[:ChecksumLength]\<close> of the double hash of the payload.\<close>

definition Checksum :: "hashfn \<Rightarrow> bytes \<Rightarrow> bytes" where
  "Checksum sha payload = take ChecksumLength (sha (sha payload))"

text \<open>
  \<^verbatim>\<open>base58.Encode\<close> and \<^verbatim>\<open>base58.Decode\<close> of \<^verbatim>\<open>github.com/mr-tron/base58\<close> are parameters,
  like the hash function; \<open>None\<close> is a decoding error.
\<close>

type_synonym base58_encoder = "bytes \<Rightarrow> string"
type_synonym base58_decoder = "string \<Rightarrow> bytes option"

definition EncodeAddress :: "base58_encoder \<Rightarrow> hashfn \<Rightarrow> bytes \<Rightarrow> string" where
  "EncodeAddress enc sha pubKeyHash =
     (let versionedPayload = AddressVersion # pubKeyHash;
          checksum = Checksum sha versionedPayload
      in enc (versionedPayload @ checksum))"

datatype address_error = Base58DecodeFailed | InvalidAddressLength | InvalidAddressChecksum

definition DecodeAddress :: "base58_decoder \<Rightarrow> hashfn \<Rightarrow> string \<Rightarrow> address_error + bytes" where
  "DecodeAddress dec sha address =
     (case dec address of
        None \<Rightarrow> Inl Base58DecodeFailed
      | Some decoded \<Rightarrow>
          if length decoded < ChecksumLength + 1 then Inl InvalidAddressLength
          else
            let payload = take (length decoded - ChecksumLength) decoded;
                checksumProvided = drop (length decoded - ChecksumLength) decoded
            in if Checksum sha payload \<noteq> checksumProvided then Inl InvalidAddressChecksum
               else Inr (drop 1 payload))"

text \<open>
  \<^verbatim>\<open>big.Int.Bytes()\<close>: the big-endian bytes of a non-negative integer without leading
  zero bytes (none at all for 0).
\<close>

function big_Bytes :: "nat \<Rightarrow> bytes" where
  "big_Bytes n = (if n = 0 then [] else big_Bytes (n div 256) @ [of_nat (n mod 256)])"
  by pat_completeness auto
termination
  by (relation "measure id") auto

declare big_Bytes.simps [simp del]

text \<open>
  The primitives of \<^verbatim>\<open>crypto/ecdsa\<close> and \<^verbatim>\<open>crypto/elliptic\<close> are parameters.
  \<open>ecdsa_sign\<close> stands for \<^verbatim>\<open>ecdsa.Sign(rand.Reader, key, hash)\<close> with the randomness
  it draws: it gives the scalars \<open>(r, s)\<close> or \<open>None\<close> for an error.  \<open>unmarshal\<close> is
  \<^verbatim>\<open>elliptic.Unmarshal\<close> on the secp256k1 curve, \<open>None\<close> when it returns a nil \<open>x\<close>.
\<close>

type_synonym ecdsa_sign = "nat \<Rightarrow> bytes \<Rightarrow> (nat \<times> nat) option"
type_synonym ecdsa_verify = "nat \<times> nat \<Rightarrow> bytes \<Rightarrow> nat \<Rightarrow> nat \<Rightarrow> bool"
type_synonym unmarshal = "bytes \<Rightarrow> (nat \<times> nat) option"

record Wallet =
  PrivateKey :: nat
  PublicKey :: bytes

datatype sign_error = FailedToSign

text \<open>\<^verbatim>\<open>signature := append(r.Bytes(), s.Bytes()...)\<close>\<close>

definition Sign :: "hashfn \<Rightarrow> ecdsa_sign \<Rightarrow> Wallet \<Rightarrow> bytes \<Rightarrow> sign_error + bytes" where
  "Sign sha ecdsaSign w message =
     (case ecdsaSign (PrivateKey w) (sha message) of
        None \<Rightarrow> Inl FailedToSign
      | Some (r, s) \<Rightarrow> Inr (big_Bytes r @ big_Bytes s))"

text \<open>
  \<^verbatim>\<open>r.SetBytes(signature[:len(signature)/2])\<close> and
  \<^verbatim>\<open>s.SetBytes(signature[len(signature)/2:])\<close>
\<close>

definition VerifySignature ::
  "hashfn \<Rightarrow> unmarshal \<Rightarrow> ecdsa_verify \<Rightarrow> bytes \<Rightarrow> bytes \<Rightarrow> bytes \<Rightarrow> bool" where
  "VerifySignature sha unm ecdsaVerify pubKey message signature =
     (case unm pubKey of
        None \<Rightarrow> False
      | Some publicKey \<Rightarrow>
          if length signature < 32 then False
          else ecdsaVerify publicKey (sha message)
                 (SetBytes (take (length signature div 2) signature))
                 (SetBytes (drop (length signature div 2) signature)))"

section \<open>Notions of the specification\<close>

text \<open>
  The following definitions are not functions of the program: they say what the
  specification means by a little-endian value, a big-endian value and value
  conservation, and name the hash that the mining loop computes for a nonce.
\<close>

definition le_value :: "bytes \<Rightarrow> nat" where
  "le_value bs = foldr (\<lambda>b acc. unat b + 256 * acc) bs 0"

fun be_value :: "bytes \<Rightarrow> nat" where
  "be_value [] = 0"
| "be_value (b # bs) = unat b * 256 ^ length bs + be_value bs"

definition nonce_hash :: "hashfn \<Rightarrow> BlockHeader \<Rightarrow> u32 \<Rightarrow> bytes" where
  "nonce_hash sha hdr n = HashBlockHeader sha (hdr\<lparr>Nonce := n\<rparr>)"

text \<open>
  The value of the output an input refers to, looked up in a UTXO set (0 when there
  is none), and value conservation of a transaction against that set.
\<close>

definition spec_input_value :: "UTXOSet \<Rightarrow> TxInput \<Rightarrow> int" where
  "spec_input_value u i =
     (case FindUTXO u (key_of (TxID i)) (OutIndex i) of
        Inl e \<Rightarrow> 0
      | Inr out \<Rightarrow> Value out)"

definition spec_value_conserved :: "UTXOSet \<Rightarrow> Transaction \<Rightarrow> bool" where
  "spec_value_conserved u tx =
     (sum_list (map (spec_input_value u) (Inputs tx)) \<ge> sum_list (map Value (Outputs tx)))"

section \<open>SHA-256 and Base58, executable\<close>

text \<open>
  The hash function and the Base58 decoder are library code that the program calls.
  To run the model on concrete inputs this section gives an executable SHA-256
  (FIPS 180-4) and the Base58 decoding of the Bitcoin alphabet.  A 32-bit word is a
  list of 32 bits, least significant bit first, so that every operation is a single
  pass over lists.
\<close>

type_synonym bits = "bool list"

fun int_bits :: "nat \<Rightarrow> int \<Rightarrow> bits" where
  "int_bits 0 n = []"
| "int_bits (Suc k) n = (n mod 2 = 1) # int_bits k (n div 2)"

fun bits_int :: "bits \<Rightarrow> int" where
  "bits_int [] = 0"
| "bits_int (b # bs) = (if b then 1 else 0) + 2 * bits_int bs"

fun sha_xor3 :: "bits \<Rightarrow> bits \<Rightarrow> bits \<Rightarrow> bits" where
  "sha_xor3 (False # xs) (False # ys) (False # zs) = False # sha_xor3 xs ys zs"
| "sha_xor3 (False # xs) (False # ys) (True # zs) = True # sha_xor3 xs ys zs"
| "sha_xor3 (False # xs) (True # ys) (False # zs) = True # sha_xor3 xs ys zs"
| "sha_xor3 (False # xs) (True # ys) (True # zs) = False # sha_xor3 xs ys zs"
| "sha_xor3 (True # xs) (False # ys) (False # zs) = True # sha_xor3 xs ys zs"
| "sha_xor3 (True # xs) (False # ys) (True # zs) = False # sha_xor3 xs ys zs"
| "sha_xor3 (True # xs) (True # ys) (False # zs) = False # sha_xor3 xs ys zs"
| "sha_xor3 (True # xs) (True # ys) (True # zs) = True # sha_xor3 xs ys zs"
| "sha_xor3 xs ys zs = []"

fun sha_ch :: "bits \<Rightarrow> bits \<Rightarrow> bits \<Rightarrow> bits" where
  "sha_ch (False # xs) (False # ys) (False # zs) = False # sha_ch xs ys zs"
| "sha_ch (False # xs) (False # ys) (True # zs) = True # sha_ch xs ys zs"
| "sha_ch (False # xs) (True # ys) (False # zs) = False # sha_ch xs ys zs"
| "sha_ch (False # xs) (True # ys) (True # zs) = True # sha_ch xs ys zs"
| "sha_ch (True # xs) (False # ys) (False # zs) = False # sha_ch xs ys zs"
| "sha_ch (True # xs) (False # ys) (True # zs) = False # sha_ch xs ys zs"
| "sha_ch (True # xs) (True # ys) (False # zs) = True # sha_ch xs ys zs"
| "sha_ch (True # xs) (True # ys) (True # zs) = True # sha_ch xs ys zs"
| "sha_ch xs ys zs = []"

fun sha_maj :: "bits \<Rightarrow> bits \<Rightarrow> bits \<Rightarrow> bits" where
  "sha_maj (False # xs) (False # ys) (False # zs) = False # sha_maj xs ys zs"
| "sha_maj (False # xs) (False # ys) (True # zs) = False # sha_maj xs ys zs"
| "sha_maj (False # xs) (True # ys) (False # zs) = False # sha_maj xs ys zs"
| "sha_maj (False # xs) (True # ys) (True # zs) = True # sha_maj xs ys zs"
| "sha_maj (True # xs) (False # ys) (False # zs) = False # sha_maj xs ys zs"
| "sha_maj (True # xs) (False # ys) (True # zs) = True # sha_maj xs ys zs"
| "sha_maj (True # xs) (True # ys) (False # zs) = True # sha_maj xs ys zs"
| "sha_maj (True # xs) (True # ys) (True # zs) = True # sha_maj xs ys zs"
| "sha_maj xs ys zs = []"

fun sha_addc :: "bool \<Rightarrow> bits \<Rightarrow> bits \<Rightarrow> bits" where
  "sha_addc False (False # xs) (False # ys) = False # sha_addc False xs ys"
| "sha_addc False (False # xs) (True # ys) = True # sha_addc False xs ys"
| "sha_addc False (True # xs) (False # ys) = True # sha_addc False xs ys"
| "sha_addc False (True # xs) (True # ys) = False # sha_addc True xs ys"
| "sha_addc True (False # xs) (False # ys) = True # sha_addc False xs ys"
| "sha_addc True (False # xs) (True # ys) = False # sha_addc True xs ys"
| "sha_addc True (True # xs) (False # ys) = False # sha_addc True xs ys"
| "sha_addc True (True # xs) (True # ys) = True # sha_addc True xs ys"
| "sha_addc c xs ys = []"

definition sha_add :: "bits \<Rightarrow> bits \<Rightarrow> bits" where
  "sha_add x y = sha_addc False x y"

definition sha_rotr :: "nat \<Rightarrow> bits \<Rightarrow> bits" where
  "sha_rotr n x = drop n x @ take n x"

definition sha_shr :: "nat \<Rightarrow> bits \<Rightarrow> bits" where
  "sha_shr n x = drop n x @ replicate n False"

definition sha_ssig0 :: "bits \<Rightarrow> bits" where
  "sha_ssig0 x = sha_xor3 (sha_rotr 7 x) (sha_rotr 18 x) (sha_shr 3 x)"

definition sha_ssig1 :: "bits \<Rightarrow> bits" where
  "sha_ssig1 x = sha_xor3 (sha_rotr 17 x) (sha_rotr 19 x) (sha_shr 10 x)"

definition sha_bsig0 :: "bits \<Rightarrow> bits" where
  "sha_bsig0 x = sha_xor3 (sha_rotr 2 x) (sha_rotr 13 x) (sha_rotr 22 x)"

definition sha_bsig1 :: "bits \<Rightarrow> bits" where
  "sha_bsig1 x = sha_xor3 (sha_rotr 6 x) (sha_rotr 11 x) (sha_rotr 25 x)"

text \<open>
  The round constants (the first 32 bits of the fractional parts of the cube roots of
  the first 64 primes) and the initial hash value (likewise for the square roots of
  the first 8 primes), in decimal.
\<close>

definition sha256_K :: "int list" where
  "sha256_K = [
     1116352408, 1899447441, 3049323471, 3921009573,
     961987163, 1508970993, 2453635748, 2870763221,
     3624381080, 310598401, 607225278, 1426881987,
     1925078388, 2162078206, 2614888103, 3248222580,
     3835390401, 4022224774, 264347078, 604807628,
     770255983, 1249150122, 1555081692, 1996064986,
     2554220882, 2821834349, 2952996808, 3210313671,
     3336571891, 3584528711, 113926993, 338241895,
     666307205, 773529912, 1294757372, 1396182291,
     1695183700, 1986661051, 2177026350, 2456956037,
     2730485921, 2820302411, 3259730800, 3345764771,
     3516065817, 3600352804, 4094571909, 275423344,
     430227734, 506948616, 659060556, 883997877,
     958139571, 1322822218, 1537002063, 1747873779,
     1955562222, 2024104815, 2227730452, 2361852424,
     2428436474, 2756734187, 3204031479, 3329325298]"

definition sha256_H0 :: "int list" where
  "sha256_H0 = [1779033703, 3144134277, 1013904242, 2773480762,
                1359893119, 2600822924, 528734635, 1541459225]"

text \<open>The message schedule, newest word first; \<open>n\<close> words are still to be added.\<close>

fun sha_schedule :: "nat \<Rightarrow> bits list \<Rightarrow> bits list" where
  "sha_schedule 0 ws = ws"
| "sha_schedule (Suc n) ws =
     sha_schedule n
       (sha_add (sha_add (sha_ssig1 (ws ! 1)) (ws ! 6))
                (sha_add (sha_ssig0 (ws ! 14)) (ws ! 15)) # ws)"

fun sha_step :: "bits \<Rightarrow> bits \<Rightarrow> bits list \<Rightarrow> bits list" where
  "sha_step t1 t2 [a, b, c, d, e, f, g, h] = [sha_add t1 t2, a, b, c, sha_add d t1, e, f, g]"
| "sha_step t1 t2 st = st"

fun sha_round :: "bits list \<Rightarrow> bits \<times> bits \<Rightarrow> bits list" where
  "sha_round [a, b, c, d, e, f, g, h] (k, w) =
     sha_step
       (sha_add (sha_add (sha_add h (sha_bsig1 e)) (sha_add (sha_ch e f g) k)) w)
       (sha_add (sha_bsig0 a) (sha_maj a b c))
       [a, b, c, d, e, f, g, h]"
| "sha_round st kw = st"

definition sha_compress :: "bits list \<Rightarrow> bits list \<Rightarrow> bits list" where
  "sha_compress hs ws =
     map2 sha_add hs
       (foldl sha_round hs
          (zip (map (int_bits 32) sha256_K) (rev (sha_schedule 48 (rev ws)))))"

text \<open>Big-endian 32-bit words of a byte string whose length is a multiple of 4.\<close>

fun sha_words :: "bytes \<Rightarrow> bits list" where
  "sha_words (a # b # c # d # rest) =
     (int_bits 8 (uint d) @ int_bits 8 (uint c) @ int_bits 8 (uint b) @ int_bits 8 (uint a))
       # sha_words rest"
| "sha_words rest = []"

fun sha_blocks :: "bits list \<Rightarrow> bits list \<Rightarrow> bits list" where
  "sha_blocks hs [] = hs"
| "sha_blocks hs (w # ws) = sha_blocks (sha_compress hs (take 16 (w # ws))) (drop 16 (w # ws))"

definition sha_word_bytes :: "bits \<Rightarrow> bytes" where
  "sha_word_bytes w = map (\<lambda>i. word_of_int (bits_int (take 8 (drop i w)))) [24, 16, 8, 0]"

definition sha_length :: "int \<Rightarrow> bytes" where
  "sha_length n = map (\<lambda>i. word_of_int (n div 256 ^ i)) [7, 6, 5, 4, 3, 2, 1, 0]"

definition sha_pad :: "bytes \<Rightarrow> bytes" where
  "sha_pad m =
     m @ [0x80] @ replicate (nat ((119 - int (length m) mod 64) mod 64)) 0 @
     sha_length (8 * int (length m))"

definition sha256 :: hashfn where
  "sha256 m =
     concat (map sha_word_bytes
       (sha_blocks (map (int_bits 32) sha256_H0) (sha_words (sha_pad m))))"

definition b58_alphabet :: string where
  "b58_alphabet = ''123456789ABCDEFGHJKLMNPQRSTUVWXYZabcdefghijkmnopqrstuvwxyz''"

text \<open>The position of a character in an alphabet, counted from \<open>i\<close>.\<close>

fun b58_index :: "char \<Rightarrow> string \<Rightarrow> int \<Rightarrow> int option" where
  "b58_index c [] i = None"
| "b58_index c (a # alphabet) i = (if c = a then Some i else b58_index c alphabet (i + 1))"

fun b58_digits :: "string \<Rightarrow> int list option" where
  "b58_digits [] = Some []"
| "b58_digits (c # cs) =
     (case b58_index c b58_alphabet 0 of
        None \<Rightarrow> None
      | Some d \<Rightarrow> (case b58_digits cs of None \<Rightarrow> None | Some ds \<Rightarrow> Some (d # ds)))"

function int_be_bytes :: "int \<Rightarrow> bytes" where
  "int_be_bytes n = (if n \<le> 0 then [] else int_be_bytes (n div 256) @ [word_of_int n])"
  by pat_completeness auto
termination
  by (relation "measure nat") auto

declare int_be_bytes.simps [simp del]

text \<open>
  Every leading \<open>1\<close> stands for a zero byte; the rest is a number in base 58, written
  out big-endian.  The library rejects the empty string and any character outside
  the alphabet.
\<close>

definition base58_Decode :: base58_decoder where
  "base58_Decode str =
     (if str = [] then None
      else
        (case b58_digits str of
           None \<Rightarrow> None
         | Some ds \<Rightarrow>
             Some (replicate (length (takeWhile (\<lambda>c. c = CHR ''1'') str)) 0 @
                   int_be_bytes (foldl (\<lambda>a d. a * 58 + d) 0 ds))))"

section \<open>Example UTXO sets and transactions\<close>

definition out_a :: TxOutput where
  "out_a = \<lparr>Value = 30, PubKeyHash = [1]\<rparr>"

definition out_b :: TxOutput where
  "out_b = \<lparr>Value = 20, PubKeyHash = [2]\<rparr>"

definition out_c :: TxOutput where
  "out_c = \<lparr>Value = 30, PubKeyHash = [3]\<rparr>"

text \<open>A set holding the two outputs of transaction \<open>[7]\<close>.\<close>

definition utxo_two_outputs :: UTXOSet where
  "utxo_two_outputs = AddUTXO NewUTXOSet [7] [out_a, out_b]"

text \<open>A transaction \<open>[8]\<close> that spends output 0 of \<open>[7]\<close>.\<close>

definition spend_first :: Transaction where
  "spend_first =
     \<lparr>ID = [8],
      Inputs = [\<lparr>TxID = Some [7], OutIndex = 0, Signature = [], PubKey = []\<rparr>],
      Outputs = [out_c]\<rparr>"

text \<open>A coinbase \<open>[5]\<close>, and with it the transactions of a block that spends output 0 of \<open>[7]\<close>.\<close>

definition small_coinbase :: Transaction where
  "small_coinbase =
     \<lparr>ID = [5],
      Inputs = [\<lparr>TxID = None, OutIndex = -1, Signature = [], PubKey = [0x42]\<rparr>],
      Outputs = [out_c]\<rparr>"

definition small_block :: "Transaction list" where
  "small_block = [small_coinbase, spend_first]"


section \<open>Example chain\<close>

text \<open>
  A chain of one block and a candidate second block, mined for SHA-256 at difficulty
  16 (the header hashes start with two zero bytes).  The second block holds a
  coinbase and a transaction that spends the 5,000,000,000 units of the genesis
  coinbase and pays out 10,000,000,000.
\<close>

definition miner_hash :: bytes where
  "miner_hash = replicate 20 0x11"

definition other_hash :: bytes where
  "other_hash = replicate 20 0x22"

definition genesis_coinbase :: Transaction where
  "genesis_coinbase =
     \<lparr>ID = [191, 136, 66, 100, 178, 53, 155, 199, 126, 54, 248, 56, 233, 250, 107, 223,
            138, 206, 172, 82, 238, 46, 63, 22, 173, 216, 119, 44, 6, 93, 116, 3],
      Inputs = [\<lparr>TxID = None, OutIndex = -1, Signature = [], PubKey = [0x47]\<rparr>],
      Outputs = [\<lparr>Value = 5000000000, PubKeyHash = miner_hash\<rparr>]\<rparr>"

definition genesis_block :: Block where
  "genesis_block =
     \<lparr>Header = \<lparr>Version = 1, PrevBlockHash = replicate 32 0, MerkleRoot = ID genesis_coinbase,
                 Timestamp = 1700000000 * 1000000000, DifficultyTarget = 16, Nonce = 4470\<rparr>,
      Transactions = TxSlice [genesis_coinbase],
      Hash = [0, 0, 197, 94, 231, 164, 3, 255, 106, 142, 221, 77, 58, 37, 252, 249,
              177, 105, 145, 211, 94, 91, 36, 226, 137, 120, 133, 90, 71, 255, 115, 200]\<rparr>"

definition chain0 :: Blockchain where
  "chain0 =
     \<lparr>Blocks = [genesis_block],
      DifficultyTarget = 16,
      UTXOSet = AddUTXO NewUTXOSet (ID genesis_coinbase) (Outputs genesis_coinbase),
      PendingTxs = []\<rparr>"

definition block1_coinbase :: Transaction where
  "block1_coinbase =
     \<lparr>ID = [149, 187, 221, 163, 95, 34, 99, 233, 211, 106, 116, 76, 142, 30, 145, 182,
            82, 213, 87, 136, 69, 231, 108, 205, 87, 211, 142, 180, 15, 155, 4, 162],
      Inputs = [\<lparr>TxID = None, OutIndex = -1, Signature = [], PubKey = [0x42]\<rparr>],
      Outputs = [\<lparr>Value = 5000000000, PubKeyHash = miner_hash\<rparr>]\<rparr>"

definition overspend :: Transaction where
  "overspend =
     \<lparr>ID = [174, 139, 25, 139, 108, 15, 117, 213, 87, 55, 115, 108, 121, 149, 157, 109,
            30, 100, 73, 88, 255, 159, 237, 77, 120, 124, 54, 96, 180, 103, 23, 224],
      Inputs = [\<lparr>TxID = Some (ID genesis_coinbase), OutIndex = 0, Signature = [1], PubKey = [4]\<rparr>],
      Outputs = [\<lparr>Value = 10000000000, PubKeyHash = other_hash\<rparr>]\<rparr>"

definition header1 :: BlockHeader where
  "header1 =
     \<lparr>Version = 1, PrevBlockHash = Hash genesis_block,
      MerkleRoot = [83, 198, 181, 35, 198, 217, 149, 15, 0, 133, 141, 146, 226, 61, 227, 239,
                    116, 49, 178, 15, 186, 59, 68, 79, 231, 46, 19, 92, 205, 99, 60, 166],
      Timestamp = 1700000549 * 1000000000, DifficultyTarget = 16, Nonce = 0\<rparr>"

text \<open>The 84 bytes that \<^verbatim>\<open>Serialize\<close> produces for \<open>header1\<close>.\<close>

definition header1_bytes :: bytes where
  "header1_bytes =
     [1, 0, 0, 0, 0, 0, 197, 94, 231, 164, 3, 255, 106, 142, 221, 77,
     58, 37, 252, 249, 177, 105, 145, 211, 94, 91, 36, 226, 137, 120, 133, 90,
     71, 255, 115, 200, 83, 198, 181, 35, 198, 217, 149, 15, 0, 133, 141, 146,
     226, 61, 227, 239, 116, 49, 178, 15, 186, 59, 68, 79, 231, 46, 19, 92,
     205, 99, 60, 166, 37, 243, 83, 101, 0, 0, 0, 0, 16, 0, 0, 0,
     0, 0, 0, 0]"

definition hash1 :: bytes where
  "hash1 = [0, 0, 48, 204, 39, 106, 77, 188, 146, 60, 211, 139, 193, 94, 96, 146,
            205, 87, 69, 34, 83, 42, 4, 84, 72, 177, 114, 132, 56, 9, 207, 200]"

definition block1 :: Block where
  "block1 =
     \<lparr>Header = header1, Transactions = TxSlice [block1_coinbase, overspend], Hash = hash1\<rparr>"

definition now1 :: Time where
  "now1 = 1700000550 * 1000000000"

text \<open>
  An ECDSA signature whose halves have different lengths: \<open>(example_r, example_s)\<close> is
  the secp256k1 signature of the two-byte message \<open>ba 01\<close> under the private key 2024
  with the nonce 7; \<open>r\<close> needs 32 bytes and \<open>s\<close> needs 31.  The primitives of the
  library are stood in for by a signing function that returns this pair, a
  verification function that accepts exactly this pair, and an unmarshalling function
  that returns the public key point.
\<close>

definition example_message :: bytes where
  "example_message = [186, 1]"

definition example_r :: nat where
  "example_r = 41948375291644419605210209193538855353224492619856392092318293986323063962044"

definition example_s :: nat where
  "example_s = 57213352768134371502690821000841833581573148895218228521506115231340949968"

text \<open>What \<^verbatim>\<open>Sign\<close> returns for this pair: the 32 bytes of \<open>r\<close>, then the 31 bytes of \<open>s\<close>.\<close>

definition example_signature :: bytes where
  "example_signature =
     [92, 189, 240, 100, 110, 93, 180, 234, 163, 152, 243, 101, 242, 234, 122, 14,
     61, 65, 155, 126, 3, 48, 227, 156, 233, 43, 221, 237, 202, 196, 249, 188,
     32, 97, 177, 51, 43, 255, 236, 119, 27, 74, 75, 164, 137, 168, 227, 113,
     197, 30, 106, 20, 232, 214, 149, 129, 215, 78, 226, 54, 129, 241, 208]"

definition example_point :: "nat \<times> nat" where
  "example_point =
     (35813609395342006503943259725157148231015557486307198663813309889850099056222,
      10317281368263215618385966457072842503043050074884455122785682892191809940057)"

definition example_sign :: ecdsa_sign where
  "example_sign key hash = Some (example_r, example_s)"

definition example_verify :: ecdsa_verify where
  "example_verify publicKey hash r s = (r = example_r \<and> s = example_s)"

definition example_unmarshal :: unmarshal where
  "example_unmarshal pubKey = Some example_point"

definition example_wallet :: Wallet where
  "example_wallet =
     \<lparr>PrivateKey = 2024,
      PublicKey =
        [4, 79, 45, 200, 218, 121, 166, 79, 47, 76, 56, 92, 65, 182, 213, 62,
         251, 119, 82, 202, 143, 39, 152, 254, 33, 252, 141, 142, 231, 169, 155, 62,
         94, 22, 207, 95, 211, 24, 104, 161, 129, 12, 32, 31, 164, 76, 21, 28,
         248, 73, 5, 107, 219, 64, 36, 216, 33, 234, 175, 91, 137, 185, 156, 42,
         89]\<rparr>"

text \<open>
  A header on which the search of \<^verbatim>\<open>Mine\<close> fails: \<open>header1\<close> at the difficulty 32, the
  upper end of the range [8, 32] in which \<^verbatim>\<open>adjustDifficulty\<close> keeps the engine.  With
  none of the nonces 0, ..., \<^verbatim>\<open>MaxNonce\<close> - 1 is the double SHA-256 of its 84 bytes below
  2^224.  The smallest of these 2^32 - 1 hashes belongs to the nonce 2283057815 and
  starts with the bytes \<open>00 00 00 01 d5 4c f9 cc\<close>.  \<open>hard_last_bytes\<close> is the header
  serialised with the last nonce that \<^verbatim>\<open>Mine\<close> tries, \<^verbatim>\<open>MaxNonce\<close> - 1, and
  \<open>hard_last_hash\<close> is the double SHA-256 of these bytes.
\<close>

definition hard_header :: BlockHeader where
  "hard_header =
     \<lparr>Version = 1, PrevBlockHash = Hash genesis_block, MerkleRoot = MerkleRoot header1,
      Timestamp = 1700000549 * 1000000000, DifficultyTarget = 32, Nonce = 0\<rparr>"

definition hard_block :: Block where
  "hard_block =
     \<lparr>Header = hard_header, Transactions = TxSlice [block1_coinbase, overspend], Hash = []\<rparr>"

definition hard_last_bytes :: bytes where
  "hard_last_bytes =
     [1, 0, 0, 0, 0, 0, 197, 94, 231, 164, 3, 255, 106, 142, 221, 77,
     58, 37, 252, 249, 177, 105, 145, 211, 94, 91, 36, 226, 137, 120, 133, 90,
     71, 255, 115, 200, 83, 198, 181, 35, 198, 217, 149, 15, 0, 133, 141, 146,
     226, 61, 227, 239, 116, 49, 178, 15, 186, 59, 68, 79, 231, 46, 19, 92,
     205, 99, 60, 166, 37, 243, 83, 101, 0, 0, 0, 0, 32, 0, 0, 0,
     254, 255, 255, 255]"

definition hard_last_hash :: bytes where
  "hard_last_hash = [17, 49, 178, 99, 134, 2, 217, 45, 127, 205, 113, 127, 23, 92, 133, 98,
                     238, 93, 137, 79, 219, 131, 225, 226, 199, 106, 171, 17, 215, 116, 172, 241]"

text \<open>
  A function that returns 32 bytes \<open>ff\<close> for every message.  It is not the hash of the
  program; it serves where a statement about every hash function is instantiated.
\<close>

definition ones_hash :: hashfn where
  "ones_hash m = replicate 32 0xFF"



section \<open>Properties of the UTXO set\<close>

lemma utxo_two_outputs_apply:
  "utxo_two_outputs k = (if k = [7] then Some [out_a, out_b] else None)"
  by (simp add: utxo_two_outputs_def AddUTXO_def NewUTXOSet_def)

lemma update_all_small_block:
  "update_all utxo_two_outputs small_block =
     ((\<lambda>k. if k = [7] then Some [out_b] else None)([5] \<mapsto> [out_c], [8] \<mapsto> [out_c]), None)"
  by (simp add: small_block_def Update_def small_coinbase_def spend_first_def IsCoinbase_def
      RemoveUTXO_def key_of_def AddUTXO_def utxo_two_outputs_apply fun_eq_iff)

text \<open>
  C1.  A block is applied by calling \<^verbatim>\<open>Update\<close> for each of its transactions.  The claim
  asks that an output stays in the index under its key (transaction id, original
  output index) until it is itself consumed.  \<^verbatim>\<open>RemoveUTXO\<close> deletes by position and
  shifts the later outputs down: after a block that spends output 0 of a transaction
  with two outputs, the unspent output that was created as number 1 is no longer found
  under index 1, and index 0, which has just been spent, yields it instead.
\<close>

theorem Update_shifts_remaining_outputs:
  "FindUTXO utxo_two_outputs [7] 0 = Inr out_a \<and>
   FindUTXO utxo_two_outputs [7] 1 = Inr out_b \<and>
   snd (update_all utxo_two_outputs small_block) = None \<and>
   FindUTXO (fst (update_all utxo_two_outputs small_block)) [7] 1 = Inl InvalidOutputIndex \<and>
   FindUTXO (fst (update_all utxo_two_outputs small_block)) [7] 0 = Inr out_b"
  by (simp add: update_all_small_block FindUTXO_def utxo_two_outputs_apply)







section \<open>Properties of the header serialisation\<close>

lemma le_value_Nil: "le_value [] = 0"
  by (simp add: le_value_def)

lemma le_value_Cons: "le_value (b # bs) = unat b + 256 * le_value bs"
  by (simp add: le_value_def)

lemma unat_low_byte: "unat (ucast (v :: 'a::len word) :: byte) = unat v mod 256"
  by (simp add: unsigned_ucast_eq take_bit_eq_mod)

lemma unat_drop_bit_div: "unat (drop_bit k (v :: 'a::len word)) = unat v div 2 ^ k"
proof -
  have "unat (drop_bit k v) = drop_bit k (unat v)"
    by (rule unat_drop_bit_eq)
  then show ?thesis by (simp add: drop_bit_eq_div)
qed

lemma byte_split: "(n :: nat) div m = (n div m) mod 256 + 256 * (n div (m * 256))"
  by (simp add: div_mult2_eq)

lemma nat_bytes4:
  assumes "(n :: nat) < 2 ^ 32"
  shows "n mod 256 + 256 * ((n div 2 ^ 8) mod 256 + 256 * ((n div 2 ^ 16) mod 256 +
           256 * ((n div 2 ^ 24) mod 256))) = n"
proof -
  have a: "n mod 256 + 256 * (n div 2 ^ 8) = n" by simp
  have b: "n div 2 ^ 8 = (n div 2 ^ 8) mod 256 + 256 * (n div 2 ^ 16)"
    using byte_split [of n "2 ^ 8"] by simp
  have c: "n div 2 ^ 16 = (n div 2 ^ 16) mod 256 + 256 * (n div 2 ^ 24)"
    using byte_split [of n "2 ^ 16"] by simp
  have d: "(n div 2 ^ 24) mod 256 = n div 2 ^ 24"
    using assms by (simp add: less_mult_imp_div_less)
  show ?thesis
    unfolding d c [symmetric] b [symmetric] by (rule a)
qed

lemma nat_bytes8:
  assumes "(n :: nat) < 2 ^ 64"
  shows "n mod 256 + 256 * ((n div 2 ^ 8) mod 256 + 256 * ((n div 2 ^ 16) mod 256 +
           256 * ((n div 2 ^ 24) mod 256 + 256 * ((n div 2 ^ 32) mod 256 +
           256 * ((n div 2 ^ 40) mod 256 + 256 * ((n div 2 ^ 48) mod 256 +
           256 * ((n div 2 ^ 56) mod 256))))))) = n"
proof -
  have a: "n mod 256 + 256 * (n div 2 ^ 8) = n" by simp
  have b: "n div 2 ^ 8 = (n div 2 ^ 8) mod 256 + 256 * (n div 2 ^ 16)"
    using byte_split [of n "2 ^ 8"] by simp
  have c: "n div 2 ^ 16 = (n div 2 ^ 16) mod 256 + 256 * (n div 2 ^ 24)"
    using byte_split [of n "2 ^ 16"] by simp
  have d: "n div 2 ^ 24 = (n div 2 ^ 24) mod 256 + 256 * (n div 2 ^ 32)"
    using byte_split [of n "2 ^ 24"] by simp
  have e: "n div 2 ^ 32 = (n div 2 ^ 32) mod 256 + 256 * (n div 2 ^ 40)"
    using byte_split [of n "2 ^ 32"] by simp
  have f: "n div 2 ^ 40 = (n div 2 ^ 40) mod 256 + 256 * (n div 2 ^ 48)"
    using byte_split [of n "2 ^ 40"] by simp
  have g: "n div 2 ^ 48 = (n div 2 ^ 48) mod 256 + 256 * (n div 2 ^ 56)"
    using byte_split [of n "2 ^ 48"] by simp
  have h: "(n div 2 ^ 56) mod 256 = n div 2 ^ 56"
    using assms by (simp add: less_mult_imp_div_less)
  show ?thesis
    unfolding h g [symmetric] f [symmetric] e [symmetric] d [symmetric] c [symmetric]
      b [symmetric]
    by (rule a)
qed

lemma le_value_write_uint32: "le_value (write_uint32 v) = unat v"
proof -
  have "le_value (write_uint32 v) =
      unat v mod 256 + 256 * ((unat v div 2 ^ 8) mod 256 + 256 * ((unat v div 2 ^ 16) mod 256 +
           256 * ((unat v div 2 ^ 24) mod 256)))"
    by (simp only: write_uint32_def le_value_Cons le_value_Nil unat_drop_bit_div unat_low_byte
        mult_zero_right add_0_right)
  also have "\<dots> = unat v"
    using unsigned_less [of v] by (intro nat_bytes4) simp
  finally show ?thesis .
qed

lemma le_value_write_int64: "le_value (write_int64 i) = nat (i mod 2 ^ 64)"
proof -
  define v where "v = (word_of_int i :: 64 word)"
  have "le_value (write_int64 i) =
      unat v mod 256 + 256 * ((unat v div 2 ^ 8) mod 256 + 256 * ((unat v div 2 ^ 16) mod 256 +
           256 * ((unat v div 2 ^ 24) mod 256 + 256 * ((unat v div 2 ^ 32) mod 256 +
           256 * ((unat v div 2 ^ 40) mod 256 + 256 * ((unat v div 2 ^ 48) mod 256 +
           256 * ((unat v div 2 ^ 56) mod 256)))))))"
    unfolding write_int64_def Let_def v_def [symmetric]
    by (simp only: le_value_Cons le_value_Nil unat_drop_bit_div unat_low_byte
        mult_zero_right add_0_right)
  also have "\<dots> = unat v"
    using unsigned_less [of v] by (intro nat_bytes8) simp
  also have "\<dots> = nat (i mod 2 ^ 64)"
    by (simp add: v_def unsigned_of_int take_bit_eq_mod)
  finally show ?thesis .
qed

lemma length_write_uint32: "length (write_uint32 v) = 4"
  by (simp add: write_uint32_def)

lemma length_write_int64: "length (write_int64 i) = 8"
  by (simp add: write_int64_def Let_def)

lemma Serialize_header1: "Serialize header1 = header1_bytes"
  by (simp add: Serialize_def header1_def genesis_block_def write_uint32_def write_int64_def
      Unix_def Let_def header1_bytes_def)

lemma header1_hash_lengths:
  "length (PrevBlockHash header1) = 32 \<and> length (MerkleRoot header1) = 32"
  by (simp add: header1_def genesis_block_def)

text \<open>
  C9, as stated, fails on the length: the timestamp takes 8 bytes, so a header whose
  two hashes have 32 bytes is serialised in 4 + 32 + 32 + 8 + 4 + 4 = 84 bytes, not 80.
\<close>

theorem Serialize_header1_not_80_bytes:
  "length (PrevBlockHash header1) = 32 \<and> length (MerkleRoot header1) = 32 \<and>
   length (Serialize header1) = 84 \<and> length (Serialize header1) \<noteq> 80"
  by (simp add: header1_hash_lengths Serialize_header1 header1_bytes_def)

text \<open>
  C9, amended.  For every header whose previous-block hash and merkle root have 32
  bytes, the serialisation has 84 bytes: the version (bytes 0-3, little-endian), the
  previous-block hash (4-35), the merkle root (36-67), the Unix seconds of the
  timestamp as a 64-bit two's complement integer (68-75, little-endian), the
  difficulty target (76-79, little-endian) and the nonce (80-83, little-endian); and
  the header hash is the double hash of exactly these bytes.
\<close>

theorem Serialize_layout:
  assumes "length (PrevBlockHash h) = 32" and "length (MerkleRoot h) = 32"
  shows "length (Serialize h) = 84 \<and>
     le_value (take 4 (Serialize h)) = unat (Version h) \<and>
     take 32 (drop 4 (Serialize h)) = PrevBlockHash h \<and>
     take 32 (drop 36 (Serialize h)) = MerkleRoot h \<and>
     le_value (take 8 (drop 68 (Serialize h))) = nat (Unix (Timestamp h) mod 2 ^ 64) \<and>
     le_value (take 4 (drop 76 (Serialize h))) = unat (BlockHeader.DifficultyTarget h) \<and>
     le_value (drop 80 (Serialize h)) = unat (Nonce h) \<and>
     HashBlockHeader sha h = sha (sha (Serialize h))"
  using assms
  by (simp add: Serialize_def le_value_write_uint32 le_value_write_int64 HashBlockHeader_def
      DoubleHashBytes_def length_write_uint32 length_write_int64)

theorem Serialize_layout_witness:
  "length header1_bytes = 84 \<and>
   le_value (take 4 header1_bytes) = 1 \<and>
   take 32 (drop 4 header1_bytes) = Hash genesis_block \<and>
   le_value (take 8 (drop 68 header1_bytes)) = 1700000549 \<and>
   le_value (take 4 (drop 76 header1_bytes)) = 16 \<and>
   le_value (drop 80 header1_bytes) = 0 \<and>
   HashBlockHeader sha256 header1 = sha256 (sha256 header1_bytes)"
  using Serialize_layout [of header1 sha256]
  by (simp add: header1_hash_lengths Serialize_header1)
     (simp add: header1_def Unix_def)

section \<open>Properties of the proof of work\<close>

lemma SetBytes_foldl:
  "foldl (\<lambda>acc b. acc * 256 + unat b) a buf = a * 256 ^ length buf + be_value buf"
  by (induction buf arbitrary: a) (simp_all add: algebra_simps)

lemma SetBytes_be_value: "SetBytes buf = be_value buf"
  by (simp add: SetBytes_def SetBytes_foldl)

lemma Target_NewProofOfWork:
  "BlockHeader.DifficultyTarget (Header block) \<le> 256 \<Longrightarrow>
   Target (NewProofOfWork block) = 2 ^ (256 - unat (BlockHeader.DifficultyTarget (Header block)))"
  by (simp add: NewProofOfWork_def push_bit_eq_mult unat_sub word_le_nat_alt)

lemma ValidateBlock_ignores_engine_difficulty:
  "ValidateBlock sha now (c\<lparr>DifficultyTarget := d\<rparr>) block = ValidateBlock sha now c block"
  by (simp add: ValidateBlock_def split: TransactionsValue.splits)

text \<open>The executable SHA-256 on the test vector \<open>abc\<close> of FIPS 180-4.\<close>

lemma sha256_test_vector:
  "sha256 [0x61, 0x62, 0x63] =
     [0xba, 0x78, 0x16, 0xbf, 0x8f, 0x01, 0xcf, 0xea, 0x41, 0x41, 0x40, 0xde, 0x5d, 0xae,
      0x22, 0x23, 0xb0, 0x03, 0x61, 0xa3, 0x96, 0x17, 0x7a, 0x9c, 0xb4, 0x10, 0xff, 0x61,
      0xf2, 0x00, 0x15, 0xad]"
  by code_simp

lemma header1_double_hash: "sha256 (sha256 header1_bytes) = hash1"
  by code_simp

lemma HashBlockHeader_header1: "HashBlockHeader sha256 header1 = hash1"
  by (simp only: HashBlockHeader_def DoubleHashBytes_def Serialize_header1 header1_double_hash)

lemma be_value_hash1: "be_value hash1 < 2 ^ 240"
  by (simp add: hash1_def)

text \<open>
  C4.  For a block whose difficulty field \<open>b\<close> lies in [8, 32], the proof-of-work
  check accepts exactly when the header hash, read as a big-endian unsigned integer,
  is strictly below 2^(256 - b).  The target comes from the block's own field: the
  verdict of \<^verbatim>\<open>ValidateBlock\<close> does not change with the engine's current difficulty, and
  a block that \<^verbatim>\<open>ValidateBlock\<close> accepts has a hash below the target of its own field.
\<close>

theorem Validate_iff_hash_below_own_target:
  assumes "8 \<le> BlockHeader.DifficultyTarget (Header block)"
    and "BlockHeader.DifficultyTarget (Header block) \<le> 32"
  shows "(Validate sha (NewProofOfWork block) \<longleftrightarrow>
           be_value (HashBlockHeader sha (Header block))
             < 2 ^ (256 - unat (BlockHeader.DifficultyTarget (Header block)))) \<and>
         ValidateBlock sha now (c\<lparr>DifficultyTarget := d\<rparr>) block = ValidateBlock sha now c block \<and>
         (ValidateBlock sha now c block = None \<longrightarrow>
           be_value (HashBlockHeader sha (Header block))
             < 2 ^ (256 - unat (BlockHeader.DifficultyTarget (Header block))))"
proof -
  from assms(2) have "BlockHeader.DifficultyTarget (Header block) \<le> 256"
    by (simp add: word_le_nat_alt)
  then have t: "Target (NewProofOfWork block) =
      2 ^ (256 - unat (BlockHeader.DifficultyTarget (Header block)))"
    by (rule Target_NewProofOfWork)
  have v: "Validate sha (NewProofOfWork block) \<longleftrightarrow>
      be_value (HashBlockHeader sha (Header block))
        < 2 ^ (256 - unat (BlockHeader.DifficultyTarget (Header block)))"
    unfolding Validate_def t SetBytes_be_value by (simp add: NewProofOfWork_def)
  moreover have "ValidateBlock sha now c block = None \<Longrightarrow> Validate sha (NewProofOfWork block)"
    by (simp add: ValidateBlock_def split: if_splits)
  ultimately show ?thesis
    by (simp add: ValidateBlock_ignores_engine_difficulty)
qed

theorem Validate_iff_hash_below_own_target_witness:
  "Validate sha256 (NewProofOfWork block1) \<and>
   be_value (HashBlockHeader sha256 (Header block1)) < 2 ^ 240 \<and>
   ValidateBlock sha256 now1 (chain0\<lparr>DifficultyTarget := 32\<rparr>) block1 =
     ValidateBlock sha256 now1 chain0 block1"
proof -
  have hb: "Header block1 = header1"
    by (simp add: block1_def)
  have d: "BlockHeader.DifficultyTarget header1 = 16"
    by (simp add: header1_def)
  have lo: "8 \<le> BlockHeader.DifficultyTarget (Header block1)"
    and hi: "BlockHeader.DifficultyTarget (Header block1) \<le> 32"
    by (simp_all add: hb d)
  from Validate_iff_hash_below_own_target [OF lo hi, where sha = sha256 and now = now1
      and c = chain0 and d = 32] be_value_hash1
  show ?thesis
    by (simp add: hb d HashBlockHeader_header1)
qed

section \<open>Properties of the mining loop\<close>

lemma nonce_hash_update: "nonce_hash sha (hdr\<lparr>Nonce := k\<rparr>) n = nonce_hash sha hdr n"
  by (simp add: nonce_hash_def)

lemma unat_succ_nonce: "n < MaxNonce \<Longrightarrow> unat (n + 1) = unat n + 1"
proof -
  assume "n < MaxNonce"
  then have "unat n < unat MaxNonce" by (simp add: word_less_nat_alt)
  then show ?thesis by (simp add: unat_word_ariths MaxNonce_def)
qed

lemma mine_loop_found:
  assumes "n \<le> m" and "m < MaxNonce"
    and "\<forall>k. n \<le> k \<and> k < m \<longrightarrow> \<not> SetBytes (nonce_hash sha hdr k) < target"
    and "SetBytes (nonce_hash sha hdr m) < target"
  shows "mine_loop sha target hdr n h = ((m, nonce_hash sha hdr m), hdr\<lparr>Nonce := m\<rparr>)"
  using assms
proof (induction sha target hdr n h rule: mine_loop.induct)
  case (1 sha target hdr nonce hash)
  from "1.prems"(1,2) have lt: "nonce < MaxNonce" by simp
  show ?case
  proof (cases "SetBytes (nonce_hash sha hdr nonce) < target")
    case True
    have "nonce = m"
    proof (rule ccontr)
      assume "nonce \<noteq> m"
      with "1.prems"(1) have "nonce < m" by simp
      with "1.prems"(3) True show False by blast
    qed
    with True lt show ?thesis
      by (subst mine_loop.simps) (simp add: nonce_hash_def)
  next
    case False
    with "1.prems"(4) have "nonce \<noteq> m" by auto
    with "1.prems"(1) have "nonce < m" by simp
    then have le: "nonce + 1 \<le> m" by (rule inc_le)
    have step: "\<forall>k. nonce + 1 \<le> k \<and> k < m \<longrightarrow>
        \<not> SetBytes (nonce_hash sha (hdr\<lparr>Nonce := nonce\<rparr>) k) < target"
    proof (intro allI impI)
      fix k assume k: "nonce + 1 \<le> k \<and> k < m"
      then have "unat nonce + 1 \<le> unat k"
        using unat_succ_nonce [OF lt] by (simp add: word_le_nat_alt)
      then have "nonce \<le> k" by (simp add: word_le_nat_alt)
      with k "1.prems"(3) show "\<not> SetBytes (nonce_hash sha (hdr\<lparr>Nonce := nonce\<rparr>) k) < target"
        by (simp add: nonce_hash_update)
    qed
    from False have nv: "\<not> SetBytes (HashBlockHeader sha (hdr\<lparr>Nonce := nonce\<rparr>)) < target"
      by (simp add: nonce_hash_def)
    have "mine_loop sha target (hdr\<lparr>Nonce := nonce\<rparr>) (nonce + 1)
        (HashBlockHeader sha (hdr\<lparr>Nonce := nonce\<rparr>)) =
        ((m, nonce_hash sha (hdr\<lparr>Nonce := nonce\<rparr>) m), hdr\<lparr>Nonce := nonce, Nonce := m\<rparr>)"
      using "1.prems"(2,4) by (intro "1.IH" [OF lt nv le _ step]) (simp_all add: nonce_hash_update)
    with lt nv show ?thesis
      by (subst mine_loop.simps) (simp add: nonce_hash_update)
  qed
qed

lemma mine_loop_exhausted:
  assumes "n < MaxNonce"
    and "\<forall>k. n \<le> k \<and> k < MaxNonce \<longrightarrow> \<not> SetBytes (nonce_hash sha hdr k) < target"
  shows "mine_loop sha target hdr n h =
    ((MaxNonce, nonce_hash sha hdr (MaxNonce - 1)), hdr\<lparr>Nonce := MaxNonce - 1\<rparr>)"
  using assms
proof (induction sha target hdr n h rule: mine_loop.induct)
  case (1 sha target hdr nonce hash)
  note lt = "1.prems"(1)
  from "1.prems" have nv: "\<not> SetBytes (HashBlockHeader sha (hdr\<lparr>Nonce := nonce\<rparr>)) < target"
    by (simp add: nonce_hash_def)
  show ?case
  proof (cases "nonce + 1 < MaxNonce")
    case True
    have step: "\<forall>k. nonce + 1 \<le> k \<and> k < MaxNonce \<longrightarrow>
        \<not> SetBytes (nonce_hash sha (hdr\<lparr>Nonce := nonce\<rparr>) k) < target"
    proof (intro allI impI)
      fix k assume k: "nonce + 1 \<le> k \<and> k < MaxNonce"
      then have "unat nonce + 1 \<le> unat k"
        using unat_succ_nonce [OF lt] by (simp add: word_le_nat_alt)
      then have "nonce \<le> k" by (simp add: word_le_nat_alt)
      with k "1.prems"(2) show "\<not> SetBytes (nonce_hash sha (hdr\<lparr>Nonce := nonce\<rparr>) k) < target"
        by (simp add: nonce_hash_update)
    qed
    have "mine_loop sha target (hdr\<lparr>Nonce := nonce\<rparr>) (nonce + 1)
        (HashBlockHeader sha (hdr\<lparr>Nonce := nonce\<rparr>)) =
        ((MaxNonce, nonce_hash sha (hdr\<lparr>Nonce := nonce\<rparr>) (MaxNonce - 1)),
         hdr\<lparr>Nonce := nonce, Nonce := MaxNonce - 1\<rparr>)"
      by (rule "1.IH" [OF lt nv True step])
    with lt nv show ?thesis
      by (subst mine_loop.simps) (simp add: nonce_hash_update)
  next
    case False
    have "unat (nonce + 1) = unat nonce + 1" by (rule unat_succ_nonce [OF lt])
    moreover from lt have "unat nonce < unat MaxNonce" by (simp add: word_less_nat_alt)
    moreover from False have "unat MaxNonce \<le> unat (nonce + 1)"
      by (simp add: word_less_nat_alt)
    ultimately have "unat (nonce + 1) = unat MaxNonce" by simp
    then have eq: "nonce + 1 = MaxNonce" by (simp add: word_unat_eq_iff)
    then have eq': "nonce = MaxNonce - 1" by (simp add: eq [symmetric])
    have "mine_loop sha target (hdr\<lparr>Nonce := nonce\<rparr>) (nonce + 1)
        (HashBlockHeader sha (hdr\<lparr>Nonce := nonce\<rparr>)) =
        ((nonce + 1, HashBlockHeader sha (hdr\<lparr>Nonce := nonce\<rparr>)), hdr\<lparr>Nonce := nonce\<rparr>)"
      using False by (subst mine_loop.simps) simp
    with lt nv show ?thesis
      by (subst mine_loop.simps) (simp add: eq nonce_hash_def eq' [symmetric])
  qed
qed

lemma mine_loop_keeps_header:
  "(snd (mine_loop sha target hdr nonce hash))\<lparr>Nonce := n\<rparr> = hdr\<lparr>Nonce := n\<rparr>"
proof (induction sha target hdr nonce hash rule: mine_loop.induct)
  case (1 sha target hdr nonce hash)
  show ?case
  proof (cases "nonce < MaxNonce")
    case False
    then show ?thesis by (subst mine_loop.simps) simp
  next
    case lt: True
    show ?thesis
    proof (cases "SetBytes (HashBlockHeader sha (hdr\<lparr>Nonce := nonce\<rparr>)) < target")
      case True
      with lt show ?thesis by (subst mine_loop.simps) simp
    next
      case nv: False
      have "(snd (mine_loop sha target (hdr\<lparr>Nonce := nonce\<rparr>) (nonce + 1)
          (HashBlockHeader sha (hdr\<lparr>Nonce := nonce\<rparr>))))\<lparr>Nonce := n\<rparr> =
          hdr\<lparr>Nonce := nonce, Nonce := n\<rparr>"
        by (rule "1.IH" [OF lt nv])
      with lt nv show ?thesis by (subst mine_loop.simps) simp
    qed
  qed
qed

lemma be_value_ones: "be_value (replicate n 0xFF) + 1 = 256 ^ n"
  by (induction n) simp_all

lemma SetBytes_ones_hash: "SetBytes (ones_hash m) = 2 ^ 256 - 1"
proof -
  have "SetBytes (ones_hash m) + 1 = 256 ^ 32"
    unfolding ones_hash_def SetBytes_be_value by (rule be_value_ones)
  then show ?thesis by simp
qed

lemma nonce_hash_ones_hash: "nonce_hash ones_hash hdr k = ones_hash []"
  by (simp add: nonce_hash_def HashBlockHeader_def DoubleHashBytes_def ones_hash_def)

lemma Target_block1: "Target (NewProofOfWork block1) = 2 ^ 240"
  by (simp add: NewProofOfWork_def block1_def header1_def push_bit_eq_mult)

text \<open>
  C5.  The claim asks that mining always returns a hash that satisfies the predicate,
  widening the search when the nonces run out, and the comment on \<^verbatim>\<open>Mine\<close> promises the
  same: "Returns the nonce and hash that satisfy the difficulty requirement".  The loop
  keeps this promise only while some nonce below \<^verbatim>\<open>MaxNonce\<close> = 2^32 - 1 succeeds.  If
  \<open>m\<close> is the first nonce whose hash is below the target, \<^verbatim>\<open>Mine\<close> returns \<open>m\<close> with that
  hash, leaves \<open>m\<close> in the header, and the block passes \<^verbatim>\<open>Validate\<close>.  If no nonce below
  \<^verbatim>\<open>MaxNonce\<close> has a valid hash, \<^verbatim>\<open>Mine\<close> returns \<^verbatim>\<open>MaxNonce\<close> with the hash computed for
  the last nonce tried, \<^verbatim>\<open>MaxNonce\<close> - 1, and that hash does not satisfy the predicate.
  In both cases the block that \<^verbatim>\<open>Mine\<close> leaves is the block it was given with another
  nonce: the timestamp and the transactions are never touched, so nothing is widened
  and nothing restarts.
\<close>

theorem Mine_result:
  "(m < MaxNonce \<and> SetBytes (nonce_hash sha (Header (Block pow)) m) < Target pow \<and>
      (\<forall>k. k < m \<longrightarrow> \<not> SetBytes (nonce_hash sha (Header (Block pow)) k) < Target pow)
    \<longrightarrow> fst (Mine sha pow) = (m, nonce_hash sha (Header (Block pow)) m) \<and>
        Nonce (Header (Block (snd (Mine sha pow)))) = m \<and>
        Validate sha (snd (Mine sha pow))) \<and>
   ((\<forall>k. k < MaxNonce \<longrightarrow> \<not> SetBytes (nonce_hash sha (Header (Block pow)) k) < Target pow)
    \<longrightarrow> fst (Mine sha pow) = (MaxNonce, nonce_hash sha (Header (Block pow)) (MaxNonce - 1)) \<and>
        \<not> SetBytes (snd (fst (Mine sha pow))) < Target pow) \<and>
   snd (Mine sha pow) =
     pow\<lparr>Block := (Block pow)\<lparr>Header := (Header (Block pow))
       \<lparr>Nonce := Nonce (Header (Block (snd (Mine sha pow))))\<rparr>\<rparr>\<rparr>"
proof (intro conjI impI)
  assume a: "m < MaxNonce \<and> SetBytes (nonce_hash sha (Header (Block pow)) m) < Target pow \<and>
      (\<forall>k. k < m \<longrightarrow> \<not> SetBytes (nonce_hash sha (Header (Block pow)) k) < Target pow)"
  have 1: "0 \<le> m" by simp
  from a have 2: "m < MaxNonce" by (rule conjunct1)
  from a have 3: "\<forall>k. 0 \<le> k \<and> k < m \<longrightarrow>
      \<not> SetBytes (nonce_hash sha (Header (Block pow)) k) < Target pow" by simp
  from a have 4: "SetBytes (nonce_hash sha (Header (Block pow)) m) < Target pow" by simp
  have r: "mine_loop sha (Target pow) (Header (Block pow)) 0 [] =
      ((m, nonce_hash sha (Header (Block pow)) m), (Header (Block pow))\<lparr>Nonce := m\<rparr>)"
    by (rule mine_loop_found [OF 1 2 3 4])
  show "fst (Mine sha pow) = (m, nonce_hash sha (Header (Block pow)) m)"
    unfolding Mine_def r by simp
  show "Nonce (Header (Block (snd (Mine sha pow)))) = m"
    unfolding Mine_def r by simp
  from 4 show "Validate sha (snd (Mine sha pow))"
    unfolding Mine_def r by (simp add: Validate_def nonce_hash_def)
next
  assume a: "\<forall>k. k < MaxNonce \<longrightarrow> \<not> SetBytes (nonce_hash sha (Header (Block pow)) k) < Target pow"
  have 1: "(0 :: u32) < MaxNonce" by (simp add: MaxNonce_def)
  from a have 2: "\<forall>k. 0 \<le> k \<and> k < MaxNonce \<longrightarrow>
      \<not> SetBytes (nonce_hash sha (Header (Block pow)) k) < Target pow" by simp
  have r: "mine_loop sha (Target pow) (Header (Block pow)) 0 [] =
      ((MaxNonce, nonce_hash sha (Header (Block pow)) (MaxNonce - 1)),
       (Header (Block pow))\<lparr>Nonce := MaxNonce - 1\<rparr>)"
    by (rule mine_loop_exhausted [OF 1 2])
  show "fst (Mine sha pow) = (MaxNonce, nonce_hash sha (Header (Block pow)) (MaxNonce - 1))"
    unfolding Mine_def r by simp
  have "MaxNonce - 1 < MaxNonce" by (simp add: MaxNonce_def)
  with a have "\<not> SetBytes (nonce_hash sha (Header (Block pow)) (MaxNonce - 1)) < Target pow"
    by simp
  then show "\<not> SetBytes (snd (fst (Mine sha pow))) < Target pow"
    unfolding Mine_def r by simp
next
  obtain r hdr where ml: "mine_loop sha (Target pow) (Header (Block pow)) 0 [] = (r, hdr)"
    by (cases "mine_loop sha (Target pow) (Header (Block pow)) 0 []")
  have "hdr\<lparr>Nonce := Nonce hdr\<rparr> = (Header (Block pow))\<lparr>Nonce := Nonce hdr\<rparr>"
    using mine_loop_keeps_header [where sha = sha and target = "Target pow"
        and hdr = "Header (Block pow)" and nonce = 0 and hash = "[]" and n = "Nonce hdr"]
    by (simp add: ml)
  then have "hdr = (Header (Block pow))\<lparr>Nonce := Nonce hdr\<rparr>" by simp
  then show "snd (Mine sha pow) =
     pow\<lparr>Block := (Block pow)\<lparr>Header := (Header (Block pow))
       \<lparr>Nonce := Nonce (Header (Block (snd (Mine sha pow))))\<rparr>\<rparr>\<rparr>"
    unfolding Mine_def ml by simp
qed

lemma nonce_hash_header1: "nonce_hash sha256 header1 0 = hash1"
proof -
  have "header1\<lparr>Nonce := 0\<rparr> = header1" by (simp add: header1_def)
  then show ?thesis by (simp add: nonce_hash_def HashBlockHeader_header1)
qed

text \<open>
  Both cases occur.  Under SHA-256 the nonce 0 already solves \<open>block1\<close>; under the
  function \<open>ones_hash\<close> no nonce solves it, and \<^verbatim>\<open>Mine\<close> returns \<^verbatim>\<open>MaxNonce\<close> with a hash
  that is not below the target.
\<close>

theorem Mine_result_witness:
  "fst (Mine sha256 (NewProofOfWork block1)) = (0, hash1) \<and>
   Nonce (Header (Block (snd (Mine sha256 (NewProofOfWork block1))))) = 0 \<and>
   Validate sha256 (snd (Mine sha256 (NewProofOfWork block1))) \<and>
   fst (Mine ones_hash (NewProofOfWork block1)) = (MaxNonce, ones_hash []) \<and>
   \<not> IsValidHash (snd (fst (Mine ones_hash (NewProofOfWork block1)))) 16"
proof -
  have h: "Header (Block (NewProofOfWork block1)) = header1"
    by (simp add: NewProofOfWork_def block1_def)
  have lt: "SetBytes hash1 < 2 ^ 240"
    unfolding SetBytes_be_value by (rule be_value_hash1)
  have found: "fst (Mine sha256 (NewProofOfWork block1)) = (0, hash1) \<and>
      Nonce (Header (Block (snd (Mine sha256 (NewProofOfWork block1))))) = 0 \<and>
      Validate sha256 (snd (Mine sha256 (NewProofOfWork block1)))"
    using Mine_result [where m = 0 and sha = sha256 and pow = "NewProofOfWork block1"] lt
    by (simp add: h nonce_hash_header1 Target_block1 MaxNonce_def)
  have none: "fst (Mine ones_hash (NewProofOfWork block1)) = (MaxNonce, ones_hash [])"
    using Mine_result [where m = 0 and sha = ones_hash and pow = "NewProofOfWork block1"]
    by (simp add: nonce_hash_ones_hash Target_block1 SetBytes_ones_hash)
  have "\<not> IsValidHash (ones_hash []) 16"
    by (simp add: IsValidHash_def SetBytes_ones_hash push_bit_eq_mult)
  with found none show ?thesis by simp
qed

text \<open>
  A header of the program on which the nonces run out is \<open>hard_header\<close>.  The last nonce
  that \<^verbatim>\<open>Mine\<close> tries on it is \<^verbatim>\<open>MaxNonce\<close> - 1 = 4294967294, and the hash of the header with
  this nonce is \<open>hard_last_hash\<close>, which is not below the target 2^224.
\<close>

lemma Serialize_hard_header_last:
  "Serialize (hard_header\<lparr>Nonce := MaxNonce - 1\<rparr>) = hard_last_bytes"
  by (simp add: Serialize_def hard_header_def header1_def genesis_block_def write_uint32_def
      write_int64_def Unix_def Let_def hard_last_bytes_def MaxNonce_def)

lemma hard_last_double_hash: "sha256 (sha256 hard_last_bytes) = hard_last_hash"
  by code_simp

lemma nonce_hash_hard_last: "nonce_hash sha256 hard_header (MaxNonce - 1) = hard_last_hash"
  by (simp only: nonce_hash_def HashBlockHeader_def DoubleHashBytes_def
      Serialize_hard_header_last hard_last_double_hash)

lemma hard_last_hash_invalid: "\<not> IsValidHash hard_last_hash 32"
  by (simp add: IsValidHash_def SetBytes_be_value hard_last_hash_def push_bit_eq_mult)

text \<open>
  That no nonce below \<^verbatim>\<open>MaxNonce\<close> gives \<open>hard_header\<close> a valid hash is a statement about
  2^32 - 1 values of SHA-256.  It was found by computing them all, which is out of
  reach for the kernel, so it is the assumption of the lemma.  With it, \<^verbatim>\<open>Mine\<close> on
  \<open>hard_block\<close> returns the nonce \<^verbatim>\<open>MaxNonce\<close> and the hash \<open>hard_last_hash\<close>: a hash that
  does not meet the difficulty of the block, on a block that fails \<^verbatim>\<open>Validate\<close>.
\<close>

lemma Mine_hard_block:
  assumes "\<forall>k. k < MaxNonce \<longrightarrow> \<not> IsValidHash (nonce_hash sha256 hard_header k) 32"
  shows "fst (Mine sha256 (NewProofOfWork hard_block)) = (MaxNonce, hard_last_hash) \<and>
    \<not> IsValidHash (snd (fst (Mine sha256 (NewProofOfWork hard_block)))) 32 \<and>
    \<not> Validate sha256 (snd (Mine sha256 (NewProofOfWork hard_block)))"
proof -
  have 1: "(0 :: u32) < MaxNonce" by (simp add: MaxNonce_def)
  from assms have 2: "\<forall>k. 0 \<le> k \<and> k < MaxNonce \<longrightarrow>
      \<not> SetBytes (nonce_hash sha256 hard_header k) < 2 ^ 224"
    by (simp add: IsValidHash_def push_bit_eq_mult)
  have r: "mine_loop sha256 (2 ^ 224) hard_header 0 [] =
      ((MaxNonce, nonce_hash sha256 hard_header (MaxNonce - 1)),
       hard_header\<lparr>Nonce := MaxNonce - 1\<rparr>)"
    by (rule mine_loop_exhausted [OF 1 2])
  have d: "BlockHeader.DifficultyTarget (Header hard_block) = 32"
    by (simp add: hard_block_def hard_header_def)
  have p: "NewProofOfWork hard_block = \<lparr>Block = hard_block, Target = 2 ^ 224\<rparr>"
    by (simp add: NewProofOfWork_def d push_bit_eq_mult)
  have h: "Header hard_block = hard_header"
    by (simp add: hard_block_def)
  have m: "Mine sha256 (NewProofOfWork hard_block) =
      ((MaxNonce, hard_last_hash),
       \<lparr>Block = hard_block\<lparr>Header := hard_header\<lparr>Nonce := MaxNonce - 1\<rparr>\<rparr>, Target = 2 ^ 224\<rparr>)"
    using r unfolding p Mine_def by (simp add: h nonce_hash_hard_last)
  have v: "\<not> SetBytes hard_last_hash < 2 ^ 224"
    using hard_last_hash_invalid by (simp add: IsValidHash_def push_bit_eq_mult)
  have l: "HashBlockHeader sha256 (hard_header\<lparr>Nonce := MaxNonce - 1\<rparr>) = hard_last_hash"
    using nonce_hash_hard_last by (simp only: nonce_hash_def)
  from v have "\<not> Validate sha256 (snd (Mine sha256 (NewProofOfWork hard_block)))"
    unfolding m by (simp add: Validate_def l)
  with m hard_last_hash_invalid show ?thesis by simp
qed


section \<open>Properties of the merkle root\<close>

lemma level_loop_pairs:
  "even (length tree) \<Longrightarrow> even i \<Longrightarrow> i \<le> length tree \<Longrightarrow>
   level_loop sha tree i acc = acc @ spec_pair_up sha (drop i tree)"
proof (induction sha tree i acc rule: level_loop.induct)
  case (1 sha tree i acc)
  show ?case
  proof (cases "i < length tree")
    case True
    with "1.prems" have i1: "i + 1 < length tree" by presburger
    then have d: "drop i tree = tree ! i # tree ! (i + 1) # drop (i + 2) tree"
      using True by (metis Cons_nth_drop_Suc Suc_eq_plus1 add_2_eq_Suc')
    have "level_loop sha tree i acc =
        level_loop sha tree (i + 2) (acc @ [DoubleHashBytes sha (tree ! i @ tree ! (i + 1))])"
      using True by (subst level_loop.simps) simp
    also have "\<dots> = (acc @ [DoubleHashBytes sha (tree ! i @ tree ! (i + 1))]) @
        spec_pair_up sha (drop (i + 2) tree)"
      using "1.IH" [OF True] "1.prems" i1 by simp
    finally show ?thesis
      by (simp add: d DoubleHashBytes_def)
  next
    case False
    then show ?thesis by (subst level_loop.simps) simp
  qed
qed

lemma spec_pair_up_pad:
  "odd (length xs) \<Longrightarrow> spec_pair_up sha (xs @ [last xs]) = spec_pair_up sha xs"
  by (induction sha xs rule: spec_pair_up.induct) auto

lemma level_loop_pad_level:
  assumes "tree \<noteq> []"
  shows "level_loop sha (pad_level tree) 0 [] = spec_pair_up sha tree"
proof (cases "even (length tree)")
  case True
  then show ?thesis
    using level_loop_pairs [of tree 0 sha "[]"] by (simp add: pad_level_def)
next
  case False
  with assms have "pad_level tree = tree @ [last tree]"
    by (simp add: pad_level_def last_conv_nth odd_iff_mod_2_eq_one)
  with False show ?thesis
    using level_loop_pairs [of "tree @ [last tree]" 0 sha "[]"]
    by (simp add: spec_pair_up_pad)
qed

lemma spec_pair_up_nonempty: "xs \<noteq> [] \<Longrightarrow> spec_pair_up sha xs \<noteq> []"
  by (cases "(sha, xs)" rule: spec_pair_up.cases) auto

lemma merkle_loop_spec:
  "tree \<noteq> [] \<Longrightarrow> merkle_loop sha tree = [spec_merkle_root sha tree]"
proof (induction sha tree rule: merkle_loop.induct)
  case (1 sha tree)
  show ?case
  proof (cases "length tree > 1")
    case True
    then obtain h h' hs where t: "tree = h # h' # hs"
      by (cases tree; cases "tl tree") auto
    have "merkle_loop sha tree = merkle_loop sha (spec_pair_up sha tree)"
      using True "1.prems" by (subst merkle_loop.simps) (simp add: level_loop_pad_level)
    also have "\<dots> = [spec_merkle_root sha (spec_pair_up sha tree)]"
      using "1.IH" [OF True] "1.prems" True
      by (simp add: level_loop_pad_level spec_pair_up_nonempty)
    finally show ?thesis by (simp add: t)
  next
    case False
    with "1.prems" obtain h where "tree = [h]"
      by (cases tree) auto
    then show ?thesis by (subst merkle_loop.simps) simp
  qed
qed

lemma BuildMerkleRoot_two: "BuildMerkleRoot sha [a, b] = sha (sha (a @ b))"
  by (simp add: BuildMerkleRoot_def merkle_loop_spec)

lemma block1_merkle:
  "sha256 (sha256 (ID block1_coinbase @ ID overspend)) = MerkleRoot header1"
  by code_simp

text \<open>
  C6.  For every list \<open>H\<close> of transaction ids, \<^verbatim>\<open>BuildMerkleRoot\<close> returns 32 zero bytes
  when \<open>H\<close> is empty, the single element when \<open>H\<close> has one, and in general the value
  that the specification describes: pair adjacent elements, the last one with itself
  on a level of odd length, replace each pair by the double hash of its
  concatenation, and repeat until one element remains.
\<close>

theorem BuildMerkleRoot_is_spec_merkle_root:
  "BuildMerkleRoot sha [] = replicate 32 0 \<and>
   BuildMerkleRoot sha [h] = h \<and>
   BuildMerkleRoot sha H = spec_merkle_root sha H"
proof -
  have "BuildMerkleRoot sha H = spec_merkle_root sha H" for H
    by (cases H) (simp_all add: BuildMerkleRoot_def merkle_loop_spec)
  then show ?thesis by simp
qed

theorem BuildMerkleRoot_is_spec_merkle_root_witness:
  "BuildMerkleRoot sha256 [ID block1_coinbase, ID overspend, ID genesis_coinbase] =
     sha256 (sha256 (MerkleRoot header1 @
       sha256 (sha256 (ID genesis_coinbase @ ID genesis_coinbase))))"
  using BuildMerkleRoot_is_spec_merkle_root
    [of sha256 "[]" "[ID block1_coinbase, ID overspend, ID genesis_coinbase]"]
  by (simp add: block1_merkle)

section \<open>Properties of block validation\<close>

lemma IsCoinbase_Outputs_update: "IsCoinbase (t\<lparr>Outputs := outs\<rparr>) = IsCoinbase t"
  by (simp add: IsCoinbase_def)

text \<open>
  The example chain is a chain the program can be in: its one block is a valid first
  block (the hash is the SHA-256 double hash of its header and lies below the target).
\<close>

lemma genesis_block_hash: "HashBlockHeader sha256 (Header genesis_block) = Hash genesis_block"
  by (simp add: HashBlockHeader_def DoubleHashBytes_def Serialize_def genesis_block_def
      genesis_coinbase_def write_uint32_def write_int64_def Unix_def Let_def) code_simp

lemma genesis_block_valid:
  "ValidateBlock sha256 now1 (chain0\<lparr>Blocks := []\<rparr>) genesis_block = None"
proof -
  have h: "Hash genesis_block =
      [0, 0, 197, 94, 231, 164, 3, 255, 106, 142, 221, 77, 58, 37, 252, 249,
       177, 105, 145, 211, 94, 91, 36, 226, 137, 120, 133, 90, 71, 255, 115, 200]"
    by (simp add: genesis_block_def)
  have pow: "Validate sha256 (NewProofOfWork genesis_block)"
    unfolding Validate_def by (simp add: NewProofOfWork_def genesis_block_hash)
       (simp add: h SetBytes_def genesis_block_def push_bit_eq_mult)
  have merkle: "BuildMerkleRoot sha256 (map ID [genesis_coinbase]) =
      MerkleRoot (Header genesis_block)"
    by (simp add: BuildMerkleRoot_def merkle_loop.simps genesis_block_def)
  have time: "\<not> Timestamp (Header genesis_block) > now1 + 2 * Hour"
    by (simp add: genesis_block_def now1_def Hour_def)
  have cb: "IsCoinbase genesis_coinbase"
    by (simp add: IsCoinbase_def genesis_coinbase_def)
  have txs: "Transactions genesis_block = TxSlice [genesis_coinbase]"
    by (simp add: genesis_block_def)
  show ?thesis
    unfolding ValidateBlock_def txs
    using pow genesis_block_hash merkle time cb by simp
qed

lemma ValidateBlock_block1: "ValidateBlock sha256 now1 chain0 block1 = None"
proof -
  have pow: "Validate sha256 (NewProofOfWork block1)"
    unfolding Validate_def Target_block1 SetBytes_be_value
    using be_value_hash1 by (simp add: NewProofOfWork_def block1_def HashBlockHeader_header1)
  have hash: "HashBlockHeader sha256 (Header block1) = Hash block1"
    by (simp add: block1_def HashBlockHeader_header1)
  have merkle: "BuildMerkleRoot sha256 (map ID [block1_coinbase, overspend]) =
      MerkleRoot (Header block1)"
    by (simp add: BuildMerkleRoot_two block1_merkle block1_def)
  have prev: "PrevBlockHash (Header block1) = Hash (Blocks chain0 ! (length (Blocks chain0) - 1))"
    by (simp add: block1_def header1_def chain0_def)
  have time: "\<not> Timestamp (Header block1) > now1 + 2 * Hour"
    by (simp add: block1_def header1_def now1_def Hour_def)
  have cb: "IsCoinbase block1_coinbase" "\<not> IsCoinbase overspend"
    by (simp_all add: IsCoinbase_def block1_coinbase_def overspend_def)
  have txs: "Transactions block1 = TxSlice [block1_coinbase, overspend]"
    by (simp add: block1_def)
  show ?thesis
    unfolding ValidateBlock_def txs
    using pow hash merkle prev time cb by simp
qed

text \<open>
  C3, as stated, fails: \<^verbatim>\<open>ValidateBlock\<close> has no value-conservation check.  The block
  \<open>block1\<close> is accepted on top of \<open>chain0\<close> although its second transaction, which is not
  a coinbase, spends an output worth 5,000,000,000 and creates one worth
  10,000,000,000.
\<close>

theorem ValidateBlock_accepts_overspend:
  "ValidateBlock sha256 now1 chain0 block1 = None \<and>
   Transactions block1 = TxSlice [block1_coinbase, overspend] \<and>
   \<not> IsCoinbase overspend \<and>
   sum_list (map (spec_input_value (UTXOSet chain0)) (Inputs overspend)) = 5000000000 \<and>
   sum_list (map Value (Outputs overspend)) = 10000000000 \<and>
   \<not> spec_value_conserved (UTXOSet chain0) overspend"
proof -
  have v: "spec_input_value (UTXOSet chain0)
      \<lparr>TxID = Some (ID genesis_coinbase), OutIndex = 0, Signature = [1], PubKey = [4]\<rparr> =
      5000000000"
    by (simp add: spec_input_value_def chain0_def AddUTXO_def FindUTXO_def key_of_def
        genesis_coinbase_def)
  have "sum_list (map (spec_input_value (UTXOSet chain0)) (Inputs overspend)) = 5000000000"
    by (simp add: overspend_def v)
  moreover have "sum_list (map Value (Outputs overspend)) = 10000000000"
    by (simp add: overspend_def)
  moreover have "\<not> IsCoinbase overspend"
    by (simp add: IsCoinbase_def overspend_def)
  moreover have "Transactions block1 = TxSlice [block1_coinbase, overspend]"
    by (simp add: block1_def)
  ultimately show ?thesis
    by (simp add: ValidateBlock_block1 spec_value_conserved_def)
qed

text \<open>
  C3, amended.  Block validation checks the proof of work, the cached hash, the merkle
  root over the transaction ids, the link to the current tip, the timestamp and the
  position of the coinbase, and nothing else: its verdict does not depend on the
  outputs of the transactions (hence not on their values) nor on the UTXO set, so it
  enforces no value conservation.
\<close>

theorem ValidateBlock_ignores_output_values:
  "ValidateBlock sha now (c\<lparr>UTXOSet := u\<rparr>)
     (block\<lparr>Transactions := TxSlice (map (\<lambda>t. t\<lparr>Outputs := f t\<rparr>) txs)\<rparr>) =
   ValidateBlock sha now c (block\<lparr>Transactions := TxSlice txs\<rparr>)"
proof -
  have ids: "map ID (map (\<lambda>t. t\<lparr>Outputs := f t\<rparr>) txs) = map ID txs"
    by simp
  have first: "txs \<noteq> [] \<Longrightarrow>
      IsCoinbase (map (\<lambda>t. t\<lparr>Outputs := f t\<rparr>) txs ! 0) = IsCoinbase (txs ! 0)"
    by (cases txs) (simp_all add: IsCoinbase_Outputs_update)
  have rest: "list_ex IsCoinbase (drop n (map (\<lambda>t. t\<lparr>Outputs := f t\<rparr>) txs)) =
      list_ex IsCoinbase (drop n txs)" for n
    by (simp add: drop_map list_ex_iff IsCoinbase_Outputs_update)
  show ?thesis
    unfolding ValidateBlock_def using first
    by (simp add: ids rest Validate_def NewProofOfWork_def del: map_map)
qed

theorem ValidateBlock_ignores_output_values_witness:
  "ValidateBlock sha256 now1 (chain0\<lparr>UTXOSet := NewUTXOSet\<rparr>)
     (block1\<lparr>Transactions := TxSlice
        [block1_coinbase\<lparr>Outputs := []\<rparr>, overspend\<lparr>Outputs := []\<rparr>]\<rparr>) = None"
proof -
  have "block1\<lparr>Transactions := TxSlice [block1_coinbase, overspend]\<rparr> = block1"
    by (simp add: block1_def)
  with ValidateBlock_ignores_output_values [where sha = sha256 and now = now1
      and u = NewUTXOSet and c = chain0 and block = block1 and f = "\<lambda>t. []"
      and txs = "[block1_coinbase, overspend]"]
    ValidateBlock_block1
  show ?thesis by simp
qed

section \<open>Properties of addresses and signatures\<close>

lemma base58_example: "base58_Decode ''1Wh4bh'' = Some [0, 20, 6, 224, 88]"
  by code_simp

lemma base58_bad_checksum: "base58_Decode ''1Wh4bi'' = Some [0, 20, 6, 224, 89]"
  by code_simp

lemma base58_short: "base58_Decode ''1111'' = Some [0, 0, 0, 0]"
  by code_simp

lemma base58_invalid: "base58_Decode ''0OIl'' = None"
  by code_simp

lemma Checksum_version_byte: "Checksum sha256 [0] = [20, 6, 224, 88]"
  by code_simp

text \<open>
  C8, as stated, fails on the length: the guard of \<^verbatim>\<open>DecodeAddress\<close> is
  \<^verbatim>\<open>len(decoded) < ChecksumLength+1\<close>, that is 5, not 25.  The string \<open>1Wh4bh\<close> decodes to
  the 5 bytes 00 14 06 e0 58, a version byte followed by its own checksum;
  \<^verbatim>\<open>DecodeAddress\<close> accepts it and returns an empty public-key hash.
\<close>

theorem DecodeAddress_accepts_five_bytes:
  "base58_Decode ''1Wh4bh'' = Some [0, 20, 6, 224, 88] \<and>
   DecodeAddress base58_Decode sha256 ''1Wh4bh'' = Inr []"
  by (simp add: DecodeAddress_def base58_example ChecksumLength_def Checksum_version_byte)

text \<open>
  C8, amended.  \<^verbatim>\<open>DecodeAddress\<close> fails when the Base58 decoding fails, when the decoded
  bytes are fewer than 5 (1 version byte + 4 checksum bytes), and when the last 4
  bytes differ from the first 4 bytes of the double hash of the bytes before them.
  In every other case it succeeds and returns the decoded bytes without the first
  byte and without the last four: a public-key hash of (decoded length - 5) bytes,
  which is 20 bytes exactly when 25 bytes were decoded.
\<close>

theorem DecodeAddress_cases:
  "(dec a = None \<longrightarrow> DecodeAddress dec sha a = Inl Base58DecodeFailed) \<and>
   (dec a = Some d \<and> length d < 5 \<longrightarrow> DecodeAddress dec sha a = Inl InvalidAddressLength) \<and>
   (dec a = Some d \<and> 5 \<le> length d \<and>
      drop (length d - 4) d \<noteq> take 4 (DoubleHashBytes sha (take (length d - 4) d))
     \<longrightarrow> DecodeAddress dec sha a = Inl InvalidAddressChecksum) \<and>
   (dec a = Some d \<and> 5 \<le> length d \<and>
      drop (length d - 4) d = take 4 (DoubleHashBytes sha (take (length d - 4) d))
     \<longrightarrow> DecodeAddress dec sha a = Inr (take (length d - 5) (drop 1 d)) \<and>
         length (take (length d - 5) (drop 1 d)) = length d - 5)"
  by (auto simp: DecodeAddress_def ChecksumLength_def Checksum_def DoubleHashBytes_def Let_def
      drop_take)

theorem DecodeAddress_cases_witness:
  "DecodeAddress base58_Decode sha256 ''0OIl'' = Inl Base58DecodeFailed \<and>
   DecodeAddress base58_Decode sha256 ''1111'' = Inl InvalidAddressLength \<and>
   DecodeAddress base58_Decode sha256 ''1Wh4bi'' = Inl InvalidAddressChecksum"
proof -
  have c: "take 4 (DoubleHashBytes sha256 [0]) = [20, 6, 224, 88]"
    using Checksum_version_byte by (simp add: Checksum_def ChecksumLength_def DoubleHashBytes_def)
  show ?thesis
    using DecodeAddress_cases [of base58_Decode "''0OIl''" sha256 "[]"]
      DecodeAddress_cases [of base58_Decode "''1111''" sha256 "[0, 0, 0, 0]"]
      DecodeAddress_cases [of base58_Decode "''1Wh4bi''" sha256 "[0, 20, 6, 224, 89]"]
    by (simp add: base58_invalid base58_short base58_bad_checksum c)
qed

lemma big_Bytes_numeral:
  "big_Bytes (numeral k) = big_Bytes (numeral k div 256) @ [of_nat (numeral k mod 256)]"
  by (subst big_Bytes.simps) simp

lemma big_Bytes_0: "big_Bytes 0 = []"
  by (subst big_Bytes.simps) simp

lemma example_signature_bytes:
  "big_Bytes example_r @ big_Bytes example_s = example_signature"
  by (simp add: example_r_def example_s_def big_Bytes_numeral big_Bytes_0 example_signature_def)

text \<open>
  C7.  \<^verbatim>\<open>Sign\<close> does not pad: it concatenates the minimal big-endian bytes of \<open>r\<close> and
  \<open>s\<close>, and \<^verbatim>\<open>VerifySignature\<close> cuts the signature in the middle.  When \<open>r\<close> needs 32
  bytes and \<open>s\<close> needs 31 the signature has 63 bytes, the cut falls inside \<open>r\<close>, and
  \<^verbatim>\<open>VerifySignature\<close> hands other scalars to the verification primitive: it rejects the
  signature that \<^verbatim>\<open>Sign\<close> has just produced, although the primitive accepts \<open>(r, s)\<close>.
\<close>

theorem VerifySignature_rejects_unpadded_signature:
  "Sign sha256 example_sign example_wallet example_message = Inr example_signature \<and>
   length example_signature = 63 \<and>
   example_verify example_point (sha256 example_message) example_r example_s \<and>
   \<not> VerifySignature sha256 example_unmarshal example_verify (PublicKey example_wallet)
       example_message example_signature"
proof -
  have "SetBytes (take 31 example_signature) \<noteq> example_r"
    by (simp add: example_signature_def SetBytes_def example_r_def)
  moreover have "length example_signature = 63"
    by (simp add: example_signature_def)
  ultimately show ?thesis
    by (simp add: Sign_def example_sign_def example_signature_bytes VerifySignature_def
        example_unmarshal_def example_verify_def)
qed

section \<open>Properties of the chain accessors\<close>

lemma total_loop_returns:
  "list_all (\<lambda>b. Transactions b \<noteq> OtherValue) (Blocks c) \<Longrightarrow>
   \<exists>r. total_loop c i n count = Inr r"
proof (induction n arbitrary: i count)
  case 0
  then show ?case by simp
next
  case (Suc n)
  show ?case
  proof (cases "GetBlock c i")
    case (Inl e)
    then show ?thesis using Suc.IH [of "i + 1" count] Suc.prems by simp
  next
    case (Inr b)
    then have "b \<in> set (Blocks c)"
      by (auto simp: GetBlock_def split: if_splits)
    with Suc.prems obtain txs where "Transactions b = TxSlice txs"
      by (cases "Transactions b") (auto simp: list_all_iff)
    then show ?thesis using Inr Suc.IH [of "i + 1"] Suc.prems by simp
  qed
qed

text \<open>
  C10.  \<^verbatim>\<open>GetBlock(i)\<close> returns a block exactly for 0 <= i < \<^verbatim>\<open>Height()\<close> and fails for
  i = \<^verbatim>\<open>Height()\<close>.  So \<^verbatim>\<open>GetBestBlockHash\<close>, which asks for the block at index
  \<^verbatim>\<open>Height()\<close>, returns an error for every chain, and \<^verbatim>\<open>GetBlockchainInfo\<close> reports an
  empty best-block hash whenever it returns (it returns whenever every block holds a
  transaction slice).
\<close>

theorem GetBlock_range_and_tip_accessors:
  "((\<exists>b. GetBlock c i = Inr b) \<longleftrightarrow> 0 \<le> i \<and> i < Height c) \<and>
   GetBlock c (Height c) = Inl BlockIndexOutOfRange \<and>
   GetBestBlockHash s = Inl (FailedToGetBestBlock BlockIndexOutOfRange) \<and>
   GetBlockchainInfo s =
     (case getTotalTransactions s of
        Inl p \<Rightarrow> Inl p
      | Inr n \<Rightarrow> Inr \<lparr>InfoHeight = Height (bc s), BestBlockHash = [],
                     Difficulty = uint (DifficultyTarget (bc s)), TotalTransactions = n,
                     PeerCount = 0, IsSyncing = False\<rparr>) \<and>
   (list_all (\<lambda>b. Transactions b \<noteq> OtherValue) (Blocks (bc s)) \<longrightarrow>
      (\<exists>info. GetBlockchainInfo s = Inr info \<and> BestBlockHash info = []))"
proof -
  have info: "GetBlockchainInfo s =
     (case getTotalTransactions s of
        Inl p \<Rightarrow> Inl p
      | Inr n \<Rightarrow> Inr \<lparr>InfoHeight = Height (bc s), BestBlockHash = [],
                     Difficulty = uint (DifficultyTarget (bc s)), TotalTransactions = n,
                     PeerCount = 0, IsSyncing = False\<rparr>)"
    by (simp add: GetBlock_def Height_def GetBlockchainInfo_def Let_def split: sum.splits)
  have "\<exists>info. GetBlockchainInfo s = Inr info \<and> BestBlockHash info = []"
    if "list_all (\<lambda>b. Transactions b \<noteq> OtherValue) (Blocks (bc s))"
  proof -
    from total_loop_returns [OF that] obtain r where "getTotalTransactions s = Inr r"
      unfolding getTotalTransactions_def by blast
    then show ?thesis by (simp add: info)
  qed
  moreover have "(\<exists>b. GetBlock c i = Inr b) \<longleftrightarrow> 0 \<le> i \<and> i < Height c"
    by (auto simp: GetBlock_def Height_def)
  moreover have "GetBlock c (Height c) = Inl BlockIndexOutOfRange"
    by (simp add: GetBlock_def Height_def)
  moreover have "GetBestBlockHash s = Inl (FailedToGetBestBlock BlockIndexOutOfRange)"
    by (simp add: GetBestBlockHash_def GetBlock_def Height_def)
  ultimately show ?thesis using info by blast
qed

theorem GetBlock_range_and_tip_accessors_witness:
  "Height chain0 = 1 \<and>
   GetBlock chain0 0 = Inr genesis_block \<and>
   GetBlock chain0 1 = Inl BlockIndexOutOfRange \<and>
   GetBestBlockHash \<lparr>bc = chain0\<rparr> = Inl (FailedToGetBestBlock BlockIndexOutOfRange) \<and>
   GetBlockchainInfo \<lparr>bc = chain0\<rparr> =
     Inr \<lparr>InfoHeight = 1, BestBlockHash = [], Difficulty = 16, TotalTransactions = 1,
          PeerCount = 0, IsSyncing = False\<rparr>"
proof -
  have h: "Height chain0 = 1"
    by (simp add: Height_def chain0_def)
  have g: "GetBlock chain0 0 = Inr genesis_block"
    by (simp add: GetBlock_def chain0_def)
  have g1: "GetBlock chain0 1 = Inl BlockIndexOutOfRange"
    by (simp add: GetBlock_def chain0_def)
  have tg: "Transactions genesis_block = TxSlice [genesis_coinbase]"
    by (simp add: genesis_block_def)
  have "getTotalTransactions \<lparr>bc = chain0\<rparr> = total_loop chain0 0 (Suc (Suc 0)) 0"
    by (simp add: getTotalTransactions_def h)
  also have "\<dots> = Inr 1"
    by (simp add: g g1 tg)
  finally have t: "getTotalTransactions \<lparr>bc = chain0\<rparr> = Inr 1" .
  from GetBlock_range_and_tip_accessors [of chain0 0 "\<lparr>bc = chain0\<rparr>"] g t h
  show ?thesis
    by (simp add: chain0_def)
qed

end
